theory Spec2Isabelle
  imports Main
begin

section \<open>JavaScript values used by the parser\<close>

text \<open>
  A JavaScript number is an IEEE 754 double. The numbers the parser computes are results
  of \<open>parseInt\<close> and differences of such results, so each is \<open>NaN\<close>, an infinity, or a
  double whose value is an integer: \<open>Num n\<close> is the double of the value \<open>n\<close> (the two
  zeros are not told apart; no operation of the program does). Counters and millisecond
  time stamps, which stay far below \<open>2^53\<close>, are modelled as integers.
\<close>

datatype number = NaN | Num int | Infinity | MinusInfinity

text \<open>
  The double nearest to an integer (round to nearest, ties to even): a double has 53
  significant bits, so an integer of \<open>b > 53\<close> bits keeps its upper 53 bits, rounded; a
  magnitude that rounds to \<open>2^1024\<close> or more is an infinity.
\<close>

fun bit_length :: "nat \<Rightarrow> nat" where
  "bit_length n = (if n = 0 then 0 else Suc (bit_length (n div 2)))"

declare bit_length.simps [simp del]

definition round53 :: "nat \<Rightarrow> nat" where
  "round53 m =
     (let b = bit_length m in
      if b \<le> 53 then m
      else
        let e = b - 53; q = m div 2 ^ e; r = m mod 2 ^ e;
            q' = (if 2 ^ (e - 1) < r \<or> (r = 2 ^ (e - 1) \<and> odd q) then q + 1 else q)
        in q' * 2 ^ e)"

definition to_double :: "int \<Rightarrow> number" where
  "to_double i =
     (let m = round53 (nat \<bar>i\<bar>) in
      if 1024 < bit_length m then (if i < 0 then MinusInfinity else Infinity)
      else Num (if i < 0 then - int m else int m))"

text \<open>Strict equality \<open>a === b\<close> on numbers: \<open>NaN\<close> equals nothing, itself included.\<close>

fun seq :: "number \<Rightarrow> number \<Rightarrow> bool" where
  "seq (Num a) (Num b) = (a = b)"
| "seq Infinity Infinity = True"
| "seq MinusInfinity MinusInfinity = True"
| "seq _ _ = False"

text \<open>
  Subtraction \<open>a - b\<close> on numbers: the exact difference, rounded to a double; \<open>NaN\<close> is
  absorbing, and the difference of two equal infinities is \<open>NaN\<close>.
\<close>

fun num_sub :: "number \<Rightarrow> number \<Rightarrow> number" where
  "num_sub (Num a) (Num b) = to_double (a - b)"
| "num_sub NaN _ = NaN"
| "num_sub _ NaN = NaN"
| "num_sub Infinity Infinity = NaN"
| "num_sub MinusInfinity MinusInfinity = NaN"
| "num_sub Infinity _ = Infinity"
| "num_sub MinusInfinity _ = MinusInfinity"
| "num_sub (Num a) Infinity = MinusInfinity"
| "num_sub (Num a) MinusInfinity = Infinity"

text \<open>
  The characters \<open>parseInt\<close> skips and the regular expression class \<open>\s\<close> matches
  (the ASCII ones; strings are modelled as lists of 8-bit characters).
\<close>

definition isWhiteSpace :: "char \<Rightarrow> bool" where
  "isWhiteSpace c \<longleftrightarrow> c \<in> {CHR '' '', CHR 0x09, CHR 0x0A, CHR 0x0B, CHR 0x0C, CHR 0x0D}"

definition digit_val :: "char \<Rightarrow> nat option" where
  "digit_val c =
     (let n = (of_char c :: nat) in
      if 48 \<le> n \<and> n \<le> 57 then Some (n - 48)
      else if 97 \<le> n \<and> n \<le> 122 then Some (n - 87)
      else if 65 \<le> n \<and> n \<le> 90 then Some (n - 55)
      else None)"

definition is_digit_of :: "nat \<Rightarrow> char \<Rightarrow> bool" where
  "is_digit_of R c = (case digit_val c of None \<Rightarrow> False | Some d \<Rightarrow> d < R)"

definition digits_value :: "nat \<Rightarrow> string \<Rightarrow> nat" where
  "digits_value R ds = foldl (\<lambda>acc c. acc * R + (case digit_val c of None \<Rightarrow> 0 | Some d \<Rightarrow> d)) 0 ds"

text \<open>
  \<open>parseInt(string, radix)\<close> as ECMAScript defines it: leading white space is skipped,
  a sign is read, a \<open>0x\<close> prefix selects radix 16 when the radix is absent, 0 or 16, the
  longest prefix of digits of the radix is read, and no digit at all gives \<open>NaN\<close>. The
  result is the double nearest to the signed integer the digits denote (for the radix 10
  and the powers of two, the only ones the program uses, the engine of Node rounds
  correctly). An absent radix is \<open>None\<close>.
\<close>

definition parseInt :: "string \<Rightarrow> nat option \<Rightarrow> number" where
  "parseInt s radix =
     (let s1 = dropWhile isWhiteSpace s;
          neg = (case s1 of [] \<Rightarrow> False | c # _ \<Rightarrow> c = CHR ''-'');
          s2 = (case s1 of [] \<Rightarrow> [] | c # r \<Rightarrow> if c = CHR ''-'' \<or> c = CHR ''+'' then r else s1);
          R0 = (case radix of None \<Rightarrow> 0 | Some r \<Rightarrow> r)
      in if R0 \<noteq> 0 \<and> (R0 < 2 \<or> 36 < R0) then NaN
         else
           let hex = ((R0 = 0 \<or> R0 = 16) \<and> (take 2 s2 = ''0x'' \<or> take 2 s2 = ''0X''));
               s3 = (if hex then drop 2 s2 else s2);
               R = (if hex then 16 else if R0 = 0 then 10 else R0);
               ds = takeWhile (is_digit_of R) s3
           in if ds = [] then NaN
              else to_double ((if neg then - 1 else 1) * int (digits_value R ds)))"

text \<open>
  \<open>Array.prototype.findIndex\<close>: the index of the first element that satisfies the
  predicate. An index into an array stands for the reference to the object stored there.
\<close>

fun findIndex :: "('a \<Rightarrow> bool) \<Rightarrow> 'a list \<Rightarrow> nat option" where
  "findIndex P [] = None"
| "findIndex P (x # xs) = (if P x then Some 0 else map_option Suc (findIndex P xs))"

section \<open>Entities (entity.ts)\<close>

datatype position = Top | Bottom

datatype EntityTags = CanCorrupt | Corrupt

text \<open>
  \<open>CardEntity\<close>. Its \<open>type\<close> field is the constant \<open>"card"\<close> and is left out. In the
  tag object a key can be present with the value \<open>undefined\<close> (\<open>Some None\<close>).
\<close>

record CardEntity =
  ent_cardId :: "number option"
  ent_cardName :: string
  ent_entityId :: number
  ent_player :: position
  ent_tags :: "string \<rightharpoonup> string option"

record EntityProps =
  props_entityId :: number
  props_cardId :: "number option"
  props_cardName :: string
  props_player :: position
  props_damage :: "number option"
  props_healing :: "number option"
  props_dead :: "bool option"
  props_tags :: "EntityTags list option"

text \<open>The value of a tag that is read as \<open>entity.tags.KEY\<close> (an absent key reads \<open>undefined\<close>).\<close>

definition tag_value :: "(string \<rightharpoonup> string option) \<Rightarrow> string \<Rightarrow> string option" where
  "tag_value tags k = (case tags k of None \<Rightarrow> None | Some v \<Rightarrow> v)"

text \<open>\<open>identifySpecialTags\<close>: \<open>None\<close> is the \<open>undefined\<close> it returns.\<close>

definition identifySpecialTags :: "CardEntity option \<Rightarrow> EntityTags list option" where
  "identifySpecialTags entity =
     (case entity of
        None \<Rightarrow> None
      | Some e \<Rightarrow>
          (let tags = (if tag_value (ent_tags e) ''CORRUPTEDCARD'' = Some ''1'' then [Corrupt]
                       else if tag_value (ent_tags e) ''CORRUPT'' = Some ''1'' then [CanCorrupt]
                       else [])
           in if 0 < length tags then Some tags else None))"

section \<open>Match log entries (match-log.ts)\<close>

datatype MatchLogType = Attack | Play | Trigger

record MatchLogEntry =
  entry_type :: MatchLogType
  entry_manaSpent :: int
  entry_source :: EntityProps
  entry_targets :: "EntityProps list"

section \<open>The state model (game-state.ts)\<close>

definition UNKNOWN_CARDNAME :: string where
  "UNKNOWN_CARDNAME = ''UNKNOWN ENTITY [cardType=INVALID]''"

text \<open>\<open>isEmpty\<close>: a card name that is the empty string or the sentinel name.\<close>

definition isEmpty :: "string \<Rightarrow> bool" where
  "isEmpty cardName \<longleftrightarrow> cardName = [] \<or> cardName = UNKNOWN_CARDNAME"

text \<open>\<open>Class\<close> is imported from data/meta; its values are names of classes.\<close>

type_synonym Class = string

record Secret =
  s_entityId :: number
  s_cardId :: string
  s_cardClass :: Class
  s_cardName :: string
  s_timestamp :: int

record Quest =
  q_entityId :: number
  q_cardName :: string
  q_class :: Class
  q_progress :: number
  q_requirement :: int
  q_sidequest :: bool
  q_timestamp :: int

datatype CardState = DECK | HAND | OTHERS

record Card =
  c_entityId :: number
  c_cardId :: "number option"
  c_cardName :: "string option"
  c_state :: CardState
  c_isSpawnedCard :: bool
  c_tags :: "EntityTags list"

record Discovery =
  d_enabled :: bool
  d_id :: "string option"
  d_source :: "EntityProps option"
  d_chosen :: "EntityProps option"
  d_options :: "EntityProps list"

record TurnEntry =
  t_startTime :: int
  t_duration :: "int option"

record Player =
  p_id :: number
  p_name :: string
  p_status :: string
  p_turn :: bool
  p_turnHistory :: "TurnEntry list"
  p_quests :: "Quest list"
  p_timeout :: number
  p_cardCount :: int
  p_cards :: "Card list"
  p_position :: position
  p_secrets :: "Secret list"
  p_discovery :: Discovery
  p_discoverHistory :: "Discovery list"
  p_cardsReplacedInMulligan :: number
  p_availableMana :: number
  p_manaSpent :: int

text \<open>
  The fields of the class \<open>GameState\<close>. A field that the constructor leaves
  \<open>undefined\<close> is an option (\<open>startTime\<close>, \<open>matchDuration\<close>, \<open>playerCount\<close>,
  \<open>turnStartTime\<close>); \<open>mulliganActive\<close> is only ever read as a condition, where
  \<open>undefined\<close> is \<open>False\<close>. \<open>turnStartTime\<close> holds the time of the \<open>Date\<close> object.
  \<open>missingEntityIds\<close> is the private set \<open>#missingEntityIds\<close>.
\<close>

record GameState =
  startTime :: "int option"
  matchDuration :: "number option"
  playerCount :: "number option"
  gameOverCount :: int
  players :: "Player list"
  beginPhaseActive :: bool
  mulliganActive :: bool
  turnStartTime :: "int option"
  matchLog :: "MatchLogEntry list"
  entities :: "number \<rightharpoonup> CardEntity"
  missingEntityIds :: "number set"

definition reset :: "GameState \<Rightarrow> GameState" where
  "reset gs = gs\<lparr>players := [], matchLog := [], beginPhaseActive := True,
     gameOverCount := 0, entities := Map.empty, missingEntityIds := {}\<rparr>"

text \<open>\<open>new GameState()\<close>: every field \<open>undefined\<close>, then \<open>reset()\<close>.\<close>

definition new_GameState :: GameState where
  "new_GameState = reset \<lparr>startTime = None, matchDuration = None, playerCount = None,
     gameOverCount = 0, players = [], beginPhaseActive = False, mulliganActive = False,
     turnStartTime = None, matchLog = [], entities = Map.empty, missingEntityIds = {}\<rparr>"

definition numPlayers :: "GameState \<Rightarrow> nat" where
  "numPlayers gs = length (players gs)"

definition complete :: "GameState \<Rightarrow> bool" where
  "complete gs \<longleftrightarrow> gameOverCount gs = 2"

definition active :: "GameState \<Rightarrow> bool" where
  "active gs \<longleftrightarrow> (case startTime gs of None \<Rightarrow> False | Some t \<Rightarrow> t \<noteq> 0) \<and> \<not> complete gs"

text \<open>\<open>start()\<close>; \<open>now\<close> is what \<open>Date.now()\<close> returns.\<close>

definition start :: "int \<Rightarrow> GameState \<Rightarrow> GameState" where
  "start now gs = (reset gs)\<lparr>startTime := Some now\<rparr>"

text \<open>The lookups return the index of the player object found in \<open>players\<close>.\<close>

definition getPlayerById :: "GameState \<Rightarrow> number \<Rightarrow> nat option" where
  "getPlayerById gs index = findIndex (\<lambda>player. seq (p_id player) index) (players gs)"

definition getPlayerByPosition :: "GameState \<Rightarrow> position \<Rightarrow> nat option" where
  "getPlayerByPosition gs pos = findIndex (\<lambda>player. p_position player = pos) (players gs)"

definition getPlayerByName :: "GameState \<Rightarrow> string \<Rightarrow> nat option" where
  "getPlayerByName gs name = findIndex (\<lambda>player. p_name player = name) (players gs)"

definition getOpponentPlayer :: "GameState \<Rightarrow> nat \<Rightarrow> nat option" where
  "getOpponentPlayer gs i = findIndex (\<lambda>p. \<not> seq (p_id p) (p_id (players gs ! i))) (players gs)"

datatype Team = Friendly | Opposing

definition getPlayerByTeam :: "GameState \<Rightarrow> Team option \<Rightarrow> nat option" where
  "getPlayerByTeam gs team =
     (case team of
        Some Friendly \<Rightarrow> getPlayerByPosition gs Bottom
      | Some Opposing \<Rightarrow> getPlayerByPosition gs Top
      | None \<Rightarrow> None)"

text \<open>An assignment through a player reference: \<open>players[i].field = ...\<close>.\<close>

definition update_player :: "nat \<Rightarrow> (Player \<Rightarrow> Player) \<Rightarrow> GameState \<Rightarrow> GameState" where
  "update_player i f gs = gs\<lparr>players := (players gs)[i := f (players gs ! i)]\<rparr>"

text \<open>The ids \<open>addMatchLogEntry\<close> flags for one entry: its source, then its targets.\<close>

definition flag_entry :: "MatchLogEntry \<Rightarrow> number set \<Rightarrow> number set" where
  "flag_entry entry missing =
     fold (\<lambda>target m. if isEmpty (props_cardName target) then insert (props_entityId target) m else m)
       (entry_targets entry)
       (if isEmpty (props_cardName (entry_source entry))
        then insert (props_entityId (entry_source entry)) missing else missing)"

definition addMatchLogEntry :: "MatchLogEntry list \<Rightarrow> GameState \<Rightarrow> GameState" where
  "addMatchLogEntry entries gs =
     gs\<lparr>missingEntityIds := fold flag_entry entries (missingEntityIds gs),
        matchLog := matchLog gs @ entries\<rparr>"

text \<open>
  The argument of \<open>resolveEntity\<close>: \<open>entityId\<close> is required, every other field of a
  \<open>CardEntity\<close> may be absent (\<open>None\<close>).
\<close>

record EntityFact =
  f_entityId :: number
  f_cardId :: "number option"
  f_cardName :: "string option"
  f_player :: "position option"
  f_tags :: "(string \<rightharpoonup> string option) option"

text \<open>
  lodash \<open>merge\<close> of one tag object into another: a key of the source whose value is a
  string is assigned; a key whose value is \<open>undefined\<close> is skipped when the destination
  has the key and is created (holding \<open>undefined\<close>) when it has not.
\<close>

definition merge_tags ::
  "(string \<rightharpoonup> string option) \<Rightarrow> (string \<rightharpoonup> string option) \<Rightarrow> (string \<rightharpoonup> string option)" where
  "merge_tags dst src =
     (\<lambda>k. case src k of
             None \<Rightarrow> dst k
           | Some None \<Rightarrow> (case dst k of None \<Rightarrow> Some None | Some v \<Rightarrow> Some v)
           | Some (Some v) \<Rightarrow> Some (Some v))"

text \<open>
  \<open>merge({type: "card", tags: {}, player: "bottom", cardName: ""}, existing, entity)\<close>:
  lodash assigns every property of a source that is not \<open>undefined\<close>, merges the nested
  \<open>tags\<close> objects key by key, and skips a source that is \<open>undefined\<close>. The result is a
  new object.
\<close>

definition merge_entity :: "CardEntity option \<Rightarrow> EntityFact \<Rightarrow> CardEntity" where
  "merge_entity existing entity =
     \<lparr>ent_cardId =
        (case f_cardId entity of
           Some c \<Rightarrow> Some c
         | None \<Rightarrow> (case existing of None \<Rightarrow> None | Some x \<Rightarrow> ent_cardId x)),
      ent_cardName =
        (case f_cardName entity of
           Some n \<Rightarrow> n
         | None \<Rightarrow> (case existing of None \<Rightarrow> [] | Some x \<Rightarrow> ent_cardName x)),
      ent_entityId = f_entityId entity,
      ent_player =
        (case f_player entity of
           Some p \<Rightarrow> p
         | None \<Rightarrow> (case existing of None \<Rightarrow> Bottom | Some x \<Rightarrow> ent_player x)),
      ent_tags =
        (let t0 = (case existing of None \<Rightarrow> Map.empty | Some x \<Rightarrow> merge_tags Map.empty (ent_tags x))
         in case f_tags entity of None \<Rightarrow> t0 | Some t \<Rightarrow> merge_tags t0 t)\<rparr>"

text \<open>The loop of \<open>resolveEntity\<close> over the cards of one player.\<close>

definition refresh_card :: "(number \<rightharpoonup> CardEntity) \<Rightarrow> number \<Rightarrow> Card \<Rightarrow> Card" where
  "refresh_card ents eid crd =
     (if seq (c_entityId crd) eid then
        (case identifySpecialTags (ents (c_entityId crd)) of
           Some tags \<Rightarrow> crd\<lparr>c_tags := tags\<rparr>
         | None \<Rightarrow> crd)
      else crd)"

text \<open>\<open>{...props, ...newProps}\<close> for a snapshot that still carries the sentinel name.\<close>

definition patch_props :: "number \<Rightarrow> string \<Rightarrow> number option \<Rightarrow> EntityProps \<Rightarrow> EntityProps" where
  "patch_props entityId cardName cardId props =
     (if isEmpty (props_cardName props) \<and> seq (props_entityId props) entityId
      then props\<lparr>props_entityId := entityId, props_cardName := cardName, props_cardId := cardId\<rparr>
      else props)"

definition patch_entry :: "number \<Rightarrow> string \<Rightarrow> number option \<Rightarrow> MatchLogEntry \<Rightarrow> MatchLogEntry" where
  "patch_entry entityId cardName cardId entry =
     entry\<lparr>entry_source := patch_props entityId cardName cardId (entry_source entry),
           entry_targets := map (patch_props entityId cardName cardId) (entry_targets entry)\<rparr>"

definition resolveEntity :: "EntityFact \<Rightarrow> GameState \<Rightarrow> GameState" where
  "resolveEntity entity gs =
     (let existing = entities gs (f_entityId entity);
          newEntity = merge_entity existing entity;
          gs1 = gs\<lparr>entities := (entities gs)(f_entityId entity \<mapsto> newEntity)\<rparr>;
          cardName = ent_cardName newEntity;
          entityId = ent_entityId newEntity;
          cardId = ent_cardId newEntity;
          gs2 = gs1\<lparr>players :=
                  map (\<lambda>player. player\<lparr>p_cards :=
                         map (refresh_card (entities gs1) (f_entityId entity)) (p_cards player)\<rparr>)
                    (players gs1)\<rparr>
      in if isEmpty cardName \<or> entityId \<notin> missingEntityIds gs2 then gs2
         else gs2\<lparr>matchLog := map (patch_entry entityId cardName cardId) (matchLog gs2)\<rparr>)"

definition getEntity :: "GameState \<Rightarrow> number \<Rightarrow> CardEntity option" where
  "getEntity gs i = entities gs i"

definition newPlayer :: "number \<Rightarrow> string \<Rightarrow> Player" where
  "newPlayer i name =
     \<lparr>p_id = i, p_name = name, p_status = [], p_turn = False, p_turnHistory = [],
      p_quests = [], p_timeout = Num 45, p_cardCount = 0, p_cards = [], p_position = Bottom,
      p_secrets = [],
      p_discovery = \<lparr>d_enabled = False, d_id = None, d_source = None, d_chosen = None, d_options = []\<rparr>,
      p_discoverHistory = [], p_cardsReplacedInMulligan = Num 0, p_availableMana = Num 0,
      p_manaSpent = 0\<rparr>"

text \<open>The argument of \<open>putCards\<close>: a partial card with a required \<open>entityId\<close>.\<close>

record PutArgs =
  put_entityId :: number
  put_cardId :: "number option"
  put_cardName :: "string option"
  put_isSpawnedCard :: "bool option"
  put_state :: "CardState option"

text \<open>The conditions \<open>if (cardId)\<close> and \<open>if (cardName)\<close>.\<close>

definition truthy_number :: "number option \<Rightarrow> bool" where
  "truthy_number v =
     (case v of
        None \<Rightarrow> False
      | Some NaN \<Rightarrow> False
      | Some (Num n) \<Rightarrow> n \<noteq> 0
      | Some Infinity \<Rightarrow> True
      | Some MinusInfinity \<Rightarrow> True)"

definition truthy_string :: "string option \<Rightarrow> bool" where
  "truthy_string v = (case v of Some s \<Rightarrow> s \<noteq> [] | None \<Rightarrow> False)"

definition putCards :: "Card list \<Rightarrow> PutArgs \<Rightarrow> Card list" where
  "putCards cardList a =
     (case findIndex (\<lambda>c. seq (c_entityId c) (put_entityId a)) cardList of
        Some i \<Rightarrow>
          (let card0 = cardList ! i;
               card1 = (if truthy_number (put_cardId a) then card0\<lparr>c_cardId := put_cardId a\<rparr> else card0);
               card2 = (if truthy_string (put_cardName a) then card1\<lparr>c_cardName := put_cardName a\<rparr> else card1);
               card3 = (case put_state a of Some st \<Rightarrow> card2\<lparr>c_state := st\<rparr> | None \<Rightarrow> card2)
           in cardList[i := card3])
      | None \<Rightarrow>
          (case (put_state a, put_isSpawnedCard a) of
             (Some st, Some spawned) \<Rightarrow>
               cardList @ [\<lparr>c_entityId = put_entityId a, c_cardId = put_cardId a,
                            c_cardName = put_cardName a, c_state = st,
                            c_isSpawnedCard = spawned, c_tags = []\<rparr>]
           | _ \<Rightarrow> cardList))"

section \<open>The line handlers (line-parsers-v2)\<close>

text \<open>
  Each \<open>matchesHandler\<close> receives the named captures of its regular expression (a record
  of strings; a capture that did not take part in the match is \<open>None\<close>), the game state
  and a logger, and returns whether it changed the state. A call either returns its flag
  or raises an error; the model gives the outcome (\<open>Inr\<close> the flag returned, \<open>Inl\<close> the
  error raised) together with the game state as the call left it. What \<open>Date.now()\<close>
  returns is an argument of the model, one for each place that calls it.
\<close>

datatype error = TypeError

text \<open>
  The logger the factory hands to a handler is \<open>debug(`hlp:${options.name}`)\<close>, an
  instance of the package debug: a function with the properties \<open>namespace\<close>,
  \<open>enabled\<close>, \<open>useColors\<close>, \<open>color\<close>, \<open>extend\<close> and \<open>destroy\<close>. It has no property
  \<open>log\<close>, so the call \<open>logger.log(...)\<close> raises a \<open>TypeError\<close> (the messages, template
  strings over the captures and the state, have no effect of their own).
  \<open>log_then_return b\<close> is the outcome of \<open>logger.log(...); return b\<close>.
\<close>

definition logger_log :: "error + unit" where
  "logger_log = Inl TypeError"

definition log_then_return :: "bool \<Rightarrow> error + bool" where
  "log_then_return b = (case logger_log of Inl e \<Rightarrow> Inl e | Inr u \<Rightarrow> Inr b)"

definition unknownPlayerName :: string where
  "unknownPlayerName = ''UNKNOWN HUMAN PLAYER''"

definition game_start :: "int \<Rightarrow> GameState \<Rightarrow> (error + bool) \<times> GameState" where
  "game_start now gs = (log_then_return True, start now gs)"

record PlayerJoinedGroups =
  pj_id :: string
  pj_name :: string

definition player_joined :: "PlayerJoinedGroups \<Rightarrow> GameState \<Rightarrow> (error + bool) \<times> GameState" where
  "player_joined groups gs =
     (let i = parseInt (pj_id groups) None; name = pj_name groups in
      case getPlayerById gs i of
        Some existingPlayer \<Rightarrow>
          if p_name (players gs ! existingPlayer) = unknownPlayerName
          then (Inr True, update_player existingPlayer (\<lambda>p. p\<lparr>p_name := name\<rparr>) gs)
          else (Inr False, gs)
      | None \<Rightarrow>
          if length (players gs) = 2 then (Inr False, gs)
          else (log_then_return True, gs\<lparr>players := players gs @ [newPlayer i name]\<rparr>))"

definition mulligan_start :: "GameState \<Rightarrow> (error + bool) \<times> GameState" where
  "mulligan_start gs = (log_then_return True, gs\<lparr>mulliganActive := True\<rparr>)"

record MulliganResultGroups =
  mr_name :: string
  mr_cardsLeft :: string

text \<open>
  \<open>DECK_CARD_COUNT\<close> is imported from data/meta; it is an argument here. The expression
  \<open>DECK_CARD_COUNT - player.cardCount - cardsLeft\<close> is two subtractions of doubles, from
  left to right.
\<close>

definition mulligan_result ::
  "int \<Rightarrow> MulliganResultGroups \<Rightarrow> GameState \<Rightarrow> (error + bool) \<times> GameState" where
  "mulligan_result DECK_CARD_COUNT groups gs =
     (if \<not> mulliganActive gs then (Inr False, gs)
      else
        let name = mr_name groups; cardsLeft = parseInt (mr_cardsLeft groups) (Some 10) in
        case getPlayerByName gs name of
          None \<Rightarrow> (Inr False, gs)
        | Some player \<Rightarrow>
            (log_then_return True, update_player player
               (\<lambda>p. p\<lparr>p_cardsReplacedInMulligan :=
                         num_sub (num_sub (Num DECK_CARD_COUNT) (Num (p_cardCount p))) cardsLeft\<rparr>) gs))"

text \<open>\<open>lastTurn.duration = now - lastTurn.startTime\<close> for \<open>_.last(turnHistory)\<close>, if any.\<close>

definition close_last_turn :: "int \<Rightarrow> TurnEntry list \<Rightarrow> TurnEntry list" where
  "close_last_turn now h =
     (if h = [] then h
      else butlast h @ [(last h)\<lparr>t_duration := Some (now - t_startTime (last h))\<rparr>])"

record TurnChangeGroups =
  tc_playerName :: string
  tc_turn :: string

definition turn_change :: "int \<Rightarrow> TurnChangeGroups \<Rightarrow> GameState \<Rightarrow> (error + bool) \<times> GameState" where
  "turn_change now groups gs =
     (case getPlayerByName gs (tc_playerName groups) of
        None \<Rightarrow> (Inr False, gs)
      | Some player \<Rightarrow>
          let gs1 = update_player player (\<lambda>p. p\<lparr>p_turn := (tc_turn groups = ''1'')\<rparr>) gs;
              gs2 = (case getOpponentPlayer gs1 player of
                       None \<Rightarrow> gs1
                     | Some opponent \<Rightarrow>
                         update_player opponent
                           (\<lambda>p. p\<lparr>p_turn := \<not> p_turn (players gs1 ! player)\<rparr>) gs1);
              gs3 = (if p_turn (players gs2 ! player)
                     then update_player player
                            (\<lambda>p. p\<lparr>p_turnHistory := p_turnHistory p @
                                     [\<lparr>t_startTime = now, t_duration = None\<rparr>]\<rparr>) gs2
                     else update_player player
                            (\<lambda>p. p\<lparr>p_turnHistory := close_last_turn now (p_turnHistory p)\<rparr>) gs2)
          in (log_then_return True, gs3))"

record GameOverGroups =
  go_playerName :: string
  go_status :: string

text \<open>
  \<open>now_turn\<close> is the \<open>Date.now()\<close> that closes the last turn, \<open>now_match\<close> the one that
  stamps \<open>matchDuration\<close>. \<open>Date.now() - startTime\<close> is \<open>NaN\<close> when \<open>startTime\<close> is
  \<open>undefined\<close>.
\<close>

definition game_over ::
  "int \<Rightarrow> int \<Rightarrow> GameOverGroups \<Rightarrow> GameState \<Rightarrow> (error + bool) \<times> GameState" where
  "game_over now_turn now_match groups gs =
     (let status = go_status groups;
          gs1 = (case getPlayerByName gs (go_playerName groups) of
                   Some player \<Rightarrow>
                     if status = ''WON'' \<or> status = ''LOST'' \<or> status = ''TIED''
                     then update_player player (\<lambda>p. p\<lparr>p_status := status\<rparr>) gs
                     else gs
                 | None \<Rightarrow> gs);
          gs2 = gs1\<lparr>gameOverCount := gameOverCount gs1 + 1\<rparr>;
          gs3 = (if gameOverCount gs2 \<ge> 2 then
                   let gs2a = (case findIndex p_turn (players gs2) of
                                 Some currentPlayer \<Rightarrow>
                                   update_player currentPlayer
                                     (\<lambda>p. p\<lparr>p_turnHistory := close_last_turn now_turn (p_turnHistory p)\<rparr>) gs2
                               | None \<Rightarrow> gs2)
                   in gs2a\<lparr>matchDuration :=
                             Some (case startTime gs2a of None \<Rightarrow> NaN | Some s \<Rightarrow> Num (now_match - s))\<rparr>
                 else gs2)
      in (log_then_return True, gs3))"

text \<open>
  The static tables the zone-change handler consults are arguments. \<open>cardsJson\<close> (the
  file cards.json, keyed by the card id) maps a textual card id to its record; \<open>questMap\<close>
  (data/quests, a \<open>Map\<close>) maps it to the quest data; \<open>secretToClass\<close> (data/secrets) maps
  it to what \<open>secretToClass[cardId]\<close> reads when that is truthy, the class of a secret.
\<close>

record CardType =
  ct_dbfId :: int
  ct_id :: string
  ct_name :: string

text \<open>
  \<open>cardData\<close> is \<open>keyBy(cardsJson, (c) => c.id)\<close>, a plain object with one property for
  each card id. The read \<open>cardData[cardId]\<close> finds the card of that id or, for the name of
  a property of \<open>Object.prototype\<close>, the inherited value: a function or an object, which
  is truthy and has no property \<open>dbfId\<close>. Any other read is \<open>undefined\<close> (\<open>None\<close>).
\<close>

datatype CardRawData = OwnCard CardType | Inherited

definition Object_prototype_names :: "string list" where
  "Object_prototype_names =
     [''constructor'', ''__defineGetter__'', ''__defineSetter__'', ''hasOwnProperty'',
      ''__lookupGetter__'', ''__lookupSetter__'', ''isPrototypeOf'', ''propertyIsEnumerable'',
      ''toString'', ''valueOf'', ''__proto__'', ''toLocaleString'']"

definition cardData :: "(string \<rightharpoonup> CardType) \<Rightarrow> string \<Rightarrow> CardRawData option" where
  "cardData cardsJson cardId =
     (case cardsJson cardId of
        Some c \<Rightarrow> Some (OwnCard c)
      | None \<Rightarrow> if cardId \<in> set Object_prototype_names then Some Inherited else None)"

text \<open>\<open>cardRawData.dbfId\<close>; \<open>None\<close> is \<open>undefined\<close>.\<close>

definition dbfId :: "CardRawData \<Rightarrow> number option" where
  "dbfId cardRawData = (case cardRawData of OwnCard c \<Rightarrow> Some (Num (ct_dbfId c)) | Inherited \<Rightarrow> None)"

record QuestData =
  qd_class :: Class
  qd_requirement :: int
  qd_sidequest :: bool

text \<open>
  The captures of the zone-change expression. \<open>fromTeam\<close> and \<open>toTeam\<close> are captures of
  \<open>(FRIENDLY|OPPOSING)?\<close>: one of the two teams, or absent. \<open>fromZone\<close> and \<open>toZone\<close>
  are any text, or absent.
\<close>

record ZoneChangeGroups =
  zc_entityName :: string
  zc_entityId :: string
  zc_cardId :: string
  zc_playerId :: string
  zc_fromTeam :: "Team option"
  zc_fromZone :: "string option"
  zc_toTeam :: "Team option"
  zc_toZone :: "string option"

definition Zone_Deck :: string where "Zone_Deck = ''DECK''"
definition Zone_Hand :: string where "Zone_Hand = ''HAND''"
definition Zone_Secret :: string where "Zone_Secret = ''SECRET''"

text \<open>The mulligan block of the zone-change handler, which derives the positions.\<close>

definition assign_positions :: "Team option \<Rightarrow> nat \<Rightarrow> nat \<Rightarrow> GameState \<Rightarrow> GameState" where
  "assign_positions toTeam player opponentPlayer gs =
     (let gs1 = (if toTeam = Some Friendly
                 then update_player opponentPlayer (\<lambda>p. p\<lparr>p_position := Top\<rparr>)
                        (update_player player (\<lambda>p. p\<lparr>p_position := Bottom\<rparr>) gs)
                 else gs)
      in if toTeam = Some Opposing
         then update_player opponentPlayer (\<lambda>p. p\<lparr>p_position := Bottom\<rparr>)
                (update_player player (\<lambda>p. p\<lparr>p_position := Top\<rparr>) gs1)
         else gs1)"

text \<open>The block \<open>if (fromPlayer) { ... }\<close>.\<close>

definition leave_zone ::
  "(string \<rightharpoonup> QuestData) \<Rightarrow> (string \<rightharpoonup> Class) \<Rightarrow> string \<Rightarrow> string \<Rightarrow> number \<Rightarrow>
   number option \<Rightarrow> string option \<Rightarrow> Player \<Rightarrow> Player" where
  "leave_zone questMap secretToClass cardId cardName entityId cardDbfId fromZone p =
     (let p1 = (if fromZone = Some Zone_Deck \<or> fromZone = Some Zone_Hand
                then p\<lparr>p_cards := putCards (p_cards p)
                        \<lparr>put_entityId = entityId, put_cardId = cardDbfId,
                         put_cardName = Some cardName, put_isSpawnedCard = None,
                         put_state = Some OTHERS\<rparr>\<rparr>
                else p);
          p2 = (if fromZone = Some Zone_Deck then p1\<lparr>p_cardCount := p_cardCount p1 - 1\<rparr> else p1)
      in if fromZone = Some Zone_Secret then
           let p3 = (if questMap cardId \<noteq> None
                     then p2\<lparr>p_quests := filter (\<lambda>quest. \<not> seq (q_entityId quest) entityId) (p_quests p2)\<rparr>
                     else p2)
           in if secretToClass cardId \<noteq> None
              then p3\<lparr>p_secrets := filter (\<lambda>secret. \<not> seq (s_entityId secret) entityId) (p_secrets p3)\<rparr>
              else p3
         else p2)"

text \<open>
  The block \<open>if (toPlayer) { ... }\<close>; \<open>now_quest\<close> and \<open>now_secret\<close> are the two time
  stamps.
\<close>

definition enter_zone ::
  "(string \<rightharpoonup> QuestData) \<Rightarrow> (string \<rightharpoonup> Class) \<Rightarrow> int \<Rightarrow> int \<Rightarrow> string \<Rightarrow> string \<Rightarrow> number \<Rightarrow>
   number option \<Rightarrow> bool \<Rightarrow> string option \<Rightarrow> Player \<Rightarrow> Player" where
  "enter_zone questMap secretToClass now_quest now_secret cardId cardName entityId cardDbfId
     mulligan toZone p =
     (let p1 = (if toZone = Some Zone_Deck \<or> toZone = Some Zone_Hand
                then p\<lparr>p_cards := putCards (p_cards p)
                        \<lparr>put_entityId = entityId, put_cardId = cardDbfId,
                         put_cardName = Some cardName, put_isSpawnedCard = Some (\<not> mulligan),
                         put_state = Some (if toZone = Some Zone_Deck then DECK else HAND)\<rparr>\<rparr>
                else p);
          p2 = (if toZone = Some Zone_Deck then p1\<lparr>p_cardCount := p_cardCount p1 + 1\<rparr> else p1)
      in if toZone = Some Zone_Secret then
           let p3 = (case questMap cardId of
                       Some quest \<Rightarrow>
                         p2\<lparr>p_quests := p_quests p2 @
                              [\<lparr>q_entityId = entityId, q_cardName = cardName, q_class = qd_class quest,
                                q_progress = Num 0, q_requirement = qd_requirement quest,
                                q_sidequest = qd_sidequest quest, q_timestamp = now_quest\<rparr>]\<rparr>
                     | None \<Rightarrow> p2)
           in (case secretToClass cardId of
                 Some secretClass \<Rightarrow>
                   p3\<lparr>p_secrets := p_secrets p3 @
                        [\<lparr>s_entityId = entityId, s_cardId = cardId, s_cardClass = secretClass,
                          s_cardName = cardName, s_timestamp = now_secret\<rparr>]\<rparr>
               | None \<Rightarrow> p3)
         else p2)"

definition zone_change ::
  "(string \<rightharpoonup> CardType) \<Rightarrow> (string \<rightharpoonup> QuestData) \<Rightarrow> (string \<rightharpoonup> Class) \<Rightarrow> int \<Rightarrow> int \<Rightarrow>
   ZoneChangeGroups \<Rightarrow> GameState \<Rightarrow> (error + bool) \<times> GameState" where
  "zone_change cardsJson questMap secretToClass now_quest now_secret groups gs =
     (let cardId = zc_cardId groups;
          cardName = zc_entityName groups;
          playerId = parseInt (zc_playerId groups) None;
          entityId = parseInt (zc_entityId groups) None
      in case cardData cardsJson cardId of
           None \<Rightarrow> (log_then_return False, gs)
         | Some cardRawData \<Rightarrow>
             (let cardDbfId = dbfId cardRawData in
              case getPlayerById gs playerId of
                None \<Rightarrow> (Inr False, gs)
              | Some player \<Rightarrow>
                  (case getOpponentPlayer gs player of
                     None \<Rightarrow> (Inr False, gs)
                   | Some opponentPlayer \<Rightarrow>
                       (let gs1 = (if mulliganActive gs \<and>
                                      (zc_toZone groups = Some Zone_Hand \<or> zc_toZone groups = Some Zone_Deck)
                                   then assign_positions (zc_toTeam groups) player opponentPlayer gs
                                   else gs);
                            gs2 = (case getPlayerByTeam gs1 (zc_fromTeam groups) of
                                     Some fromPlayer \<Rightarrow>
                                       update_player fromPlayer
                                         (leave_zone questMap secretToClass cardId cardName entityId
                                            cardDbfId (zc_fromZone groups)) gs1
                                   | None \<Rightarrow> gs1);
                            gs3 = (case getPlayerByTeam gs2 (zc_toTeam groups) of
                                     Some toPlayer \<Rightarrow>
                                       update_player toPlayer
                                         (enter_zone questMap secretToClass now_quest now_secret cardId
                                            cardName entityId cardDbfId (mulliganActive gs2)
                                            (zc_toZone groups)) gs2
                                   | None \<Rightarrow> gs2)
                        in (log_then_return True, gs3)))))"

record TagChangeGroups =
  tg_cardName :: string
  tg_entityId :: string
  tg_cardId :: string
  tg_playerId :: string
  tg_tag :: string
  tg_value :: string

definition tag_change :: "TagChangeGroups \<Rightarrow> GameState \<Rightarrow> (error + bool) \<times> GameState" where
  "tag_change groups gs =
     (let playerId = parseInt (tg_playerId groups) None;
          entityId = parseInt (tg_entityId groups) None
      in if tg_tag groups = ''QUEST_PROGRESS'' then
           (case getPlayerById gs playerId of
              Some player \<Rightarrow>
                (case findIndex (\<lambda>q. seq (q_entityId q) entityId) (p_quests (players gs ! player)) of
                   Some quest \<Rightarrow>
                     (Inr True, update_player player
                        (\<lambda>p. p\<lparr>p_quests := (p_quests p)[quest :=
                                  (p_quests p ! quest)\<lparr>q_progress := parseInt (tg_value groups) None\<rparr>]\<rparr>) gs)
                 | None \<Rightarrow> (log_then_return False, gs))
            | None \<Rightarrow> (log_then_return False, gs))
         else (log_then_return False, gs))"

record GameTagChangeGroups =
  gt_entity :: string
  gt_tag :: string
  gt_value :: string

definition game_tag_change ::
  "int \<Rightarrow> GameTagChangeGroups \<Rightarrow> GameState \<Rightarrow> (error + bool) \<times> GameState" where
  "game_tag_change now groups gs =
     (let entity = gt_entity groups; tag = gt_tag groups; val = gt_value groups;
          gs1 = (if entity = ''GameEntity'' then
                   let g1 = (if tag = ''NEXT_STEP'' \<and> val = ''MAIN_READY''
                             then gs\<lparr>mulliganActive := True\<rparr> else gs)
                   in if tag = ''STEP'' \<and> val = ''MAIN_READY'' then
                        let g2 = g1\<lparr>turnStartTime := Some now\<rparr> in
                        if list_all (\<lambda>player. \<not> p_turn player) (players g2) then
                          (case getPlayerByPosition g2 Bottom of
                             Some b \<Rightarrow> update_player b (\<lambda>p. p\<lparr>p_turn := True\<rparr>) g2
                           | None \<Rightarrow> g2)
                        else g2
                      else g1
                 else gs);
          gs2 = (if tag = ''TIMEOUT'' then
                   (case getPlayerByName gs1 entity of
                      Some player \<Rightarrow> update_player player (\<lambda>p. p\<lparr>p_timeout := parseInt val None\<rparr>) gs1
                    | None \<Rightarrow> gs1)
                 else gs1);
          gs3 = (if tag = ''MULLIGAN_STATE'' \<and> val = ''INPUT''
                 then gs2\<lparr>mulliganActive := True\<rparr> else gs2);
          gs4 = (if tag = ''RESOURCES'' then
                   (case getPlayerByName gs3 entity of
                      Some player \<Rightarrow>
                        update_player player (\<lambda>p. p\<lparr>p_availableMana := parseInt val (Some 10)\<rparr>) gs3
                    | None \<Rightarrow> gs3)
                 else gs3)
      in (log_then_return True, gs4))"

text \<open>The handler of past-begin-phase takes no logger.\<close>

definition past_begin_phase :: "GameState \<Rightarrow> (error + bool) \<times> GameState" where
  "past_begin_phase gs = (Inr True, gs\<lparr>beginPhaseActive := False\<rparr>)"

section \<open>The parser factories (line-parsers-v2/factory.ts)\<close>

text \<open>
  \<open>makeFullRegex(label, content)\<close> builds
  \<open>new RegExp(`${label} -(?<indent>\\s+)${content}`)\<close>. The template converts the two
  \<open>RegExp\<close> objects to strings, and the string of a \<open>RegExp\<close> is its source between two
  slashes, so the pattern is: a slash, the label, a slash, \<open>" -"\<close>, the white space
  captured as \<open>indent\<close>, and the text of \<open>${content}\<close> (the content expression between two
  slashes).

  A label expression of this program is a sequence of literal characters and of dots: a
  dot that is not escaped matches any character but a line terminator (the label of
  \<open>MulliganManager.HandleGameStart\<close> has one). In the model \<open>label\<close> is that sequence,
  and \<open>content\<close> says whether the text of \<open>${content}\<close> matches at the start of a
  string, and with which named captures. \<open>exec\<close> tries the start positions from left to
  right; at a position the greedy \<open>\s+\<close> tries the longest white space first. The result
  is the capture \<open>indent\<close> with the captures of the content.
\<close>

datatype atom = Lit char | AnyChar

fun matches_atom :: "atom \<Rightarrow> char \<Rightarrow> bool" where
  "matches_atom (Lit c) x = (x = c)"
| "matches_atom AnyChar x = (x \<noteq> CHR 0x0A \<and> x \<noteq> CHR 0x0D)"

fun try_indents :: "(string \<Rightarrow> 'g option) \<Rightarrow> string \<Rightarrow> nat \<Rightarrow> (string \<times> 'g) option" where
  "try_indents content rest 0 = None"
| "try_indents content rest (Suc k) =
     (case content (drop (Suc k) rest) of
        Some g \<Rightarrow> Some (take (Suc k) rest, g)
      | None \<Rightarrow> try_indents content rest k)"

definition match_here :: "atom list \<Rightarrow> (string \<Rightarrow> 'g option) \<Rightarrow> string \<Rightarrow> (string \<times> 'g) option" where
  "match_here label content s =
     (let pat = map Lit ''/'' @ label @ map Lit ''/ -'' in
      if list_all2 matches_atom pat (take (length pat) s)
      then try_indents content (drop (length pat) s)
             (length (takeWhile isWhiteSpace (drop (length pat) s)))
      else None)"

fun makeFullRegex :: "atom list \<Rightarrow> (string \<Rightarrow> 'g option) \<Rightarrow> string \<Rightarrow> (string \<times> 'g) option" where
  "makeFullRegex label content [] = match_here label content []"
| "makeFullRegex label content (c # cs) =
     (case match_here label content (c # cs) of
        Some m \<Rightarrow> Some m
      | None \<Rightarrow> makeFullRegex label content cs)"

text \<open>The text of \<open>${content}\<close> for a content expression that is a literal text.\<close>

definition literal_content :: "string \<Rightarrow> string \<Rightarrow> unit option" where
  "literal_content lit s =
     (if take (length (''/'' @ lit @ ''/'')) s = ''/'' @ lit @ ''/'' then Some () else None)"

text \<open>The text of \<open>${/.*/}\<close>: a slash, any characters of the line, a slash.\<close>

definition any_content :: "string \<Rightarrow> unit option" where
  "any_content s =
     (case s of
        [] \<Rightarrow> None
      | c # t \<Rightarrow>
          if c = CHR ''/'' \<and> CHR ''/'' \<in> set (takeWhile (\<lambda>x. x \<noteq> CHR 0x0A \<and> x \<noteq> CHR 0x0D) t)
          then Some () else None)"

text \<open>
  The parser \<open>lineParserFactory\<close> returns: \<open>false\<close> on a line that does not match, and
  otherwise what the handler returns or raises.
\<close>

definition lineParserFactory ::
  "atom list \<Rightarrow> (string \<Rightarrow> 'g option) \<Rightarrow> ('g \<Rightarrow> GameState \<Rightarrow> (error + bool) \<times> GameState) \<Rightarrow>
   string \<Rightarrow> GameState \<Rightarrow> (error + bool) \<times> GameState" where
  "lineParserFactory label regex matchesHandler line gs =
     (case makeFullRegex label regex line of
        None \<Rightarrow> (Inr False, gs)
      | Some (indent, groups) \<Rightarrow> matchesHandler groups gs)"

text \<open>
  The two variables a block parser closes over. The block line parser returns nothing; it
  may change the game state and the block state it is handed, so the model returns both.
\<close>

record 's BlockParserState =
  bp_blockState :: "'s option"
  bp_indent :: nat

definition blockParserFactory ::
  "atom list \<Rightarrow> (string \<Rightarrow> 'g option) \<Rightarrow> ('g \<Rightarrow> GameState \<Rightarrow> 's option) \<Rightarrow>
   (string \<Rightarrow> GameState \<Rightarrow> 's \<Rightarrow> GameState \<times> 's) \<Rightarrow>
   string \<Rightarrow> 's BlockParserState \<times> GameState \<Rightarrow> bool \<times> 's BlockParserState \<times> GameState" where
  "blockParserFactory label startRegex initializeBlockState blockLineParser line w =
     (let st = fst w; gs = snd w in
      case makeFullRegex label startRegex line of
        Some (indent, groups) \<Rightarrow>
          (let st1 = st\<lparr>bp_indent := length indent\<rparr> in
           case initializeBlockState groups gs of
             Some initialState \<Rightarrow> (False, st1\<lparr>bp_blockState := Some initialState\<rparr>, gs)
           | None \<Rightarrow> (False, st1, gs))
      | None \<Rightarrow>
          (case bp_blockState st of
             None \<Rightarrow> (False, st, gs)
           | Some blockState \<Rightarrow>
               (case makeFullRegex label any_content line of
                  Some (indent, u) \<Rightarrow>
                    if seq (parseInt indent None) (Num (int (bp_indent st)))
                    then (let r = blockLineParser line gs blockState
                          in (False, st\<lparr>bp_blockState := Some (snd r)\<rparr>, fst r))
                    else (False, st, gs)
                | None \<Rightarrow> (False, st, gs))))"

text \<open>
  The block parser \<open>card-init\<close>: the text of its start expression
  \<open>/FULL_ENTITY - Creating ID=(?<entityId>\d+) CardID=(?<cardId>.+)/\<close> between two slashes,
  and its \<open>initializeBlockState\<close>.
\<close>

record CardInitGroups =
  ci_entityId :: string
  ci_cardId :: string

definition is_decimal :: "char \<Rightarrow> bool" where
  "is_decimal c \<longleftrightarrow> is_digit_of 10 c"

definition card_init_start :: "string \<Rightarrow> CardInitGroups option" where
  "card_init_start s =
     (let lit1 = ''/FULL_ENTITY - Creating ID=''; lit2 = '' CardID='' in
      if take (length lit1) s \<noteq> lit1 then None
      else
        let r1 = drop (length lit1) s;
            ds = takeWhile is_decimal r1;
            r2 = dropWhile is_decimal r1
        in if ds = [] \<or> take (length lit2) r2 \<noteq> lit2 then None
           else
             let r3 = takeWhile (\<lambda>x. x \<noteq> CHR 0x0A \<and> x \<noteq> CHR 0x0D) (drop (length lit2) r2);
                 cid = rev (drop 1 (dropWhile (\<lambda>x. x \<noteq> CHR ''/'') (rev r3)))
             in if CHR ''/'' \<in> set r3 \<and> cid \<noteq> []
                then Some \<lparr>ci_entityId = ds, ci_cardId = cid\<rparr> else None)"

definition card_init_initializeBlockState :: "CardInitGroups \<Rightarrow> GameState \<Rightarrow> CardInitGroups option" where
  "card_init_initializeBlockState groups gs =
     (if \<not> active gs \<or> \<not> beginPhaseActive gs then None
      else Some \<lparr>ci_entityId = ci_entityId groups, ci_cardId = ci_cardId groups\<rparr>)"

text \<open>
  The labels \<open>/\[Power\] GameState\.DebugPrintPower\(\)/\<close> and
  \<open>/\[LoadingScreen\] MulliganManager.HandleGameStart\(\)/\<close>.
\<close>

definition label_Power_GameState_DebugPrintPower :: "atom list" where
  "label_Power_GameState_DebugPrintPower = map Lit ''[Power] GameState.DebugPrintPower()''"

definition label_LoadingScreen_MulliganManager_HandleGameStart :: "atom list" where
  "label_LoadingScreen_MulliganManager_HandleGameStart =
     map Lit ''[LoadingScreen] MulliganManager'' @ [AnyChar] @ map Lit ''HandleGameStart()''"

section \<open>The tailer and the batch loop (utils/read-log-file.ts, log-watcher.ts)\<close>

text \<open>
  A file is the list of its bytes. \<open>fs.promises.read(file, buffer, 0, length, position)\<close>
  copies up to \<open>length\<close> bytes of the file, from \<open>position\<close> on, to the start of the
  buffer and leaves the rest of the buffer as it was.
\<close>

definition fs_read :: "string \<Rightarrow> string \<Rightarrow> nat \<Rightarrow> nat \<Rightarrow> string" where
  "fs_read file buffer len position =
     (let bytes = take (min len (length buffer)) (drop position file)
      in bytes @ drop (length bytes) buffer)"

text \<open>
  \<open>splitLines\<close> of the package split-lines: \<open>string.split(/\r?\n/)\<close>. The pieces are cut
  at every line feed, and a carriage return just before the line feed goes with it.
\<close>

fun split_lf :: "string \<Rightarrow> string list" where
  "split_lf [] = [[]]"
| "split_lf (c # cs) =
     (if c = CHR 0x0A then [] # split_lf cs
      else (case split_lf cs of [] \<Rightarrow> [[c]] | l # ls \<Rightarrow> (c # l) # ls))"

definition strip_cr :: "string \<Rightarrow> string" where
  "strip_cr l = (if l \<noteq> [] \<and> last l = CHR 0x0D then butlast l else l)"

definition splitLines :: "string \<Rightarrow> string list" where
  "splitLines s = (let ls = split_lf s in map strip_cr (butlast ls) @ [last ls])"

text \<open>
  \<open>readLogFile\<close>: \<open>Buffer.alloc\<close> gives a buffer of zero bytes; the bytes are decoded as
  they are (the log is ASCII).
\<close>

definition readLogFile :: "string \<Rightarrow> nat \<Rightarrow> nat \<Rightarrow> string list" where
  "readLogFile file startByte endByte =
     (let readSize0 = int endByte - int startByte;
          readSize = (if readSize0 < 0 then int endByte else readSize0);
          buffer = replicate (nat readSize) (CHR 0x00)
      in splitLines (fs_read file buffer (nat readSize) startByte))"

text \<open>
  \<open>LogWatcher.update\<close> up to the parsing: the lines it reads for a file event that
  carries the size \<open>newSize\<close>, and the new value of \<open>#lastFileSize\<close>.
\<close>

definition update :: "string \<Rightarrow> nat \<Rightarrow> nat \<Rightarrow> string list \<times> nat" where
  "update file lastFileSize newSize = (readLogFile file lastFileSize newSize, newSize)"

text \<open>
  \<open>parseLines\<close>. The state the parsers work on is the game state together with whatever
  the parsers close over (\<open>'w\<close>, with \<open>gameState\<close> the projection). An error a parser
  raises ends the batch: it leaves the inner loop, the outer loop and \<open>parseLines\<close>. The
  model returns the outcome (\<open>Inl\<close> the error raised, \<open>Inr\<close> when the batch came to its
  end), the state after the batch and the game states handed to the \<open>gamestate-changed\<close>
  event, in order. \<open>outputNewLines\<close> writes the optional output log and touches neither.
  The source compares the \<open>Date\<close> objects \<open>turnStartTime\<close> and \<open>lastTurnTime\<close> by
  reference; the model compares their times.
\<close>

text \<open>The inner loop: the line is handed to each parser; what a parser returns is dropped.\<close>

fun run_parsers ::
  "(string \<Rightarrow> 'w \<Rightarrow> (error + bool) \<times> 'w) list \<Rightarrow> string \<Rightarrow> 'w \<Rightarrow> (error + unit) \<times> 'w" where
  "run_parsers [] line w = (Inr (), w)"
| "run_parsers (lineParser # rest) line w =
     (case lineParser line w of
        (Inl e, w1) \<Rightarrow> (Inl e, w1)
      | (Inr b, w1) \<Rightarrow> run_parsers rest line w1)"

fun parse_loop ::
  "bool \<Rightarrow> (string \<Rightarrow> 'w \<Rightarrow> (error + bool) \<times> 'w) list \<Rightarrow> ('w \<Rightarrow> GameState) \<Rightarrow> string list \<Rightarrow>
   bool \<Rightarrow> int option \<Rightarrow> 'w \<Rightarrow> GameState list \<Rightarrow> (error + bool) \<times> 'w \<times> GameState list" where
  "parse_loop updateEveryTurn lineParsers gameState [] updated lastTurnTime w emitted =
     (Inr updated, w, emitted)"
| "parse_loop updateEveryTurn lineParsers gameState (line # rest) updated lastTurnTime w emitted =
     (case run_parsers lineParsers line w of
        (Inl e, w1) \<Rightarrow> (Inl e, w1, emitted)
      | (Inr u, w1) \<Rightarrow>
          if updated \<and> updateEveryTurn \<and> turnStartTime (gameState w1) \<noteq> lastTurnTime
          then parse_loop updateEveryTurn lineParsers gameState rest False
                 (turnStartTime (gameState w1)) w1 (emitted @ [gameState w1])
          else parse_loop updateEveryTurn lineParsers gameState rest updated lastTurnTime w1 emitted)"

definition parseLines ::
  "bool \<Rightarrow> (string \<Rightarrow> 'w \<Rightarrow> (error + bool) \<times> 'w) list \<Rightarrow> ('w \<Rightarrow> GameState) \<Rightarrow> string list \<Rightarrow> 'w \<Rightarrow>
   (error + unit) \<times> 'w \<times> GameState list" where
  "parseLines updateEveryTurn lineParsers gameState lines w =
     (case parse_loop updateEveryTurn lineParsers gameState lines False
             (turnStartTime (gameState w)) w [] of
        (Inl e, w1, emitted) \<Rightarrow> (Inl e, w1, emitted)
      | (Inr updated, w1, emitted) \<Rightarrow>
          if updated then (Inr (), w1, emitted @ [gameState w1]) else (Inr (), w1, emitted))"

section \<open>Runs of facts\<close>

text \<open>
  A run of game-over facts, each with its two clock readings, applied in order; and a run
  of zone-change facts, each with its two clock readings. Each fact is a call of the
  handler on the state the call before left, whatever the outcome of that call was.
\<close>

fun game_overs :: "(int \<times> int \<times> GameOverGroups) list \<Rightarrow> GameState \<Rightarrow> GameState" where
  "game_overs [] gs = gs"
| "game_overs (f # fs) gs =
     game_overs fs (snd (game_over (fst f) (fst (snd f)) (snd (snd f)) gs))"

fun zone_changes ::
  "(string \<rightharpoonup> CardType) \<Rightarrow> (string \<rightharpoonup> QuestData) \<Rightarrow> (string \<rightharpoonup> Class) \<Rightarrow>
   (int \<times> int \<times> ZoneChangeGroups) list \<Rightarrow> GameState \<Rightarrow> GameState" where
  "zone_changes cardsJson questMap secretToClass [] gs = gs"
| "zone_changes cardsJson questMap secretToClass (f # fs) gs =
     zone_changes cardsJson questMap secretToClass fs
       (snd (zone_change cardsJson questMap secretToClass (fst f) (fst (snd f)) (snd (snd f)) gs))"

text \<open>
  A match used in the examples, the state the handlers leave after these calls: started at
  time 1000, Alice (id 1) and Bob (id 2) joined, and Alice's turn begun at time 2000.
\<close>

definition two_player_game :: GameState where
  "two_player_game =
     snd (turn_change 2000 \<lparr>tc_playerName = ''Alice'', tc_turn = ''1''\<rparr>
       (snd (player_joined \<lparr>pj_id = ''2'', pj_name = ''Bob''\<rparr>
         (snd (player_joined \<lparr>pj_id = ''1'', pj_name = ''Alice''\<rparr>
           (snd (game_start 1000 new_GameState)))))))"

text \<open>A card table with one card, used in the examples.\<close>

definition example_cardData :: "string \<rightharpoonup> CardType" where
  "example_cardData =
     [''CS2_029'' \<mapsto> \<lparr>ct_dbfId = 315, ct_id = ''CS2_029'', ct_name = ''Fireball''\<rparr>]"

text \<open>
  The invariant \<open>addMatchLogEntry\<close> keeps: every source and target snapshot of the match
  log that carries an empty or sentinel name has its entity id in \<open>#missingEntityIds\<close>.
\<close>

definition flagged :: "GameState \<Rightarrow> bool" where
  "flagged gs \<longleftrightarrow>
     list_all (\<lambda>entry.
        (isEmpty (props_cardName (entry_source entry)) \<longrightarrow>
           props_entityId (entry_source entry) \<in> missingEntityIds gs) \<and>
        list_all (\<lambda>target. isEmpty (props_cardName target) \<longrightarrow>
                     props_entityId target \<in> missingEntityIds gs) (entry_targets entry))
       (matchLog gs)"

text \<open>
  A match with an unresolved entity: in the example match Alice holds the card of entity 7
  (name and card id unknown), and one log entry has entity 7 as its source (empty name) and
  as a target (sentinel name), next to a target that is known.
\<close>

definition example_unresolved :: GameState where
  "example_unresolved =
     addMatchLogEntry
       [\<lparr>entry_type = Play, entry_manaSpent = 0,
         entry_source = \<lparr>props_entityId = Num 7, props_cardId = None, props_cardName = [],
            props_player = Bottom, props_damage = None, props_healing = None, props_dead = None,
            props_tags = None\<rparr>,
         entry_targets =
           [\<lparr>props_entityId = Num 7, props_cardId = None, props_cardName = UNKNOWN_CARDNAME,
             props_player = Bottom, props_damage = None, props_healing = None, props_dead = None,
             props_tags = None\<rparr>,
            \<lparr>props_entityId = Num 8, props_cardId = Some (Num 1004), props_cardName = ''Wisp'',
             props_player = Top, props_damage = Some (Num 6), props_healing = None,
             props_dead = Some True, props_tags = None\<rparr>]\<rparr>]
       (update_player 0
          (\<lambda>p. p\<lparr>p_cards := putCards (p_cards p)
                   \<lparr>put_entityId = Num 7, put_cardId = None, put_cardName = None,
                    put_isSpawnedCard = Some False, put_state = Some HAND\<rparr>\<rparr>)
          two_player_game)"

text \<open>
  Two zone-change facts for the examples, applied in the example match after the mulligan
  has started: entity 7 (the card \<open>CS2_029\<close>) enters the hand of the friendly side for
  player 1, and then moves from the hand of the friendly side to the hand of the opposing
  side for player 2.
\<close>

definition mulligan_game :: GameState where
  "mulligan_game = snd (mulligan_start two_player_game)"

definition fact_draw :: ZoneChangeGroups where
  "fact_draw =
     \<lparr>zc_entityName = ''Fireball'', zc_entityId = ''7'', zc_cardId = ''CS2_029'',
      zc_playerId = ''1'', zc_fromTeam = None, zc_fromZone = None,
      zc_toTeam = Some Friendly, zc_toZone = Some ''HAND''\<rparr>"

definition fact_steal :: ZoneChangeGroups where
  "fact_steal =
     \<lparr>zc_entityName = ''Fireball'', zc_entityId = ''7'', zc_cardId = ''CS2_029'',
      zc_playerId = ''2'', zc_fromTeam = Some Friendly, zc_fromZone = Some ''HAND'',
      zc_toTeam = Some Opposing, zc_toZone = Some ''HAND''\<rparr>"

section \<open>Auxiliary facts\<close>

lemma findIndex_SomeD:
  "findIndex P xs = Some i \<Longrightarrow> i < length xs \<and> P (xs ! i) \<and> (\<forall>j<i. \<not> P (xs ! j))"
proof (induction xs arbitrary: i)
  case Nil
  then show ?case by simp
next
  case (Cons x xs)
  show ?case
  proof (cases "P x")
    case True
    with Cons.prems show ?thesis by simp
  next
    case False
    with Cons.prems obtain k where k: "findIndex P xs = Some k" "i = Suc k"
      by auto
    from Cons.IH [OF k(1)] False k(2) show ?thesis
      by (auto simp: less_Suc_eq_0_disj)
  qed
qed

lemma findIndex_None_iff: "findIndex P xs = None \<longleftrightarrow> (\<forall>x\<in>set xs. \<not> P x)"
  by (induction xs) auto

lemma not_white_decimal: "is_decimal c \<Longrightarrow> \<not> isWhiteSpace c"
  by (auto simp: is_decimal_def is_digit_of_def digit_val_def isWhiteSpace_def Let_def split: if_splits)

lemma decimal_not_sign:
  "is_decimal c \<Longrightarrow> c \<noteq> CHR ''-'' \<and> c \<noteq> CHR ''+'' \<and> c \<noteq> CHR ''x'' \<and> c \<noteq> CHR ''X''"
  by (auto simp: is_decimal_def is_digit_of_def digit_val_def Let_def)

lemma takeWhile_all: "list_all P xs \<Longrightarrow> takeWhile P xs = xs"
  by (induction xs) auto

text \<open>An integer of at most 53 bits, and \<open>2^53\<close> itself, is a double.\<close>

lemma bit_length_le_iff: "bit_length n \<le> k \<longleftrightarrow> n < 2 ^ k"
proof (induction k arbitrary: n)
  case 0
  then show ?case by (subst bit_length.simps) simp
next
  case (Suc k)
  show ?case by (subst bit_length.simps) (auto simp: Suc)
qed

lemma bit_length_numeral: "bit_length (numeral k) = Suc (bit_length (numeral k div 2))"
  by (subst bit_length.simps) simp

lemma bit_length_0: "bit_length 0 = 0"
  by (subst bit_length.simps) simp

lemma bit_length_1: "bit_length (Suc 0) = 1"
  by (subst bit_length.simps) (simp add: bit_length_0)

lemmas bit_length_eval = bit_length_numeral bit_length_0 bit_length_1

lemma round53_exact: "m \<le> 2 ^ 53 \<Longrightarrow> round53 m = m"
proof (cases "m < 2 ^ 53")
  case True
  then have "bit_length m \<le> 53" by (simp add: bit_length_le_iff)
  then show ?thesis by (simp add: round53_def)
next
  case False
  assume "m \<le> 2 ^ 53"
  with False have m: "m = 9007199254740992" by simp
  show ?thesis unfolding m by (simp add: round53_def Let_def bit_length_eval)
qed

lemma to_double_exact: "\<bar>i\<bar> \<le> 2 ^ 53 \<Longrightarrow> to_double i = Num i"
proof -
  assume a: "\<bar>i\<bar> \<le> 2 ^ 53"
  then have n: "nat \<bar>i\<bar> \<le> 2 ^ 53" by (simp add: nat_le_iff)
  then have "nat \<bar>i\<bar> < 2 ^ 1024"
    by (rule le_less_trans) simp
  then have "bit_length (nat \<bar>i\<bar>) \<le> 1024" by (simp add: bit_length_le_iff)
  with n show ?thesis by (simp add: to_double_def round53_exact Let_def)
qed

text \<open>
  A capture of \<open>\d+\<close> parses, with the radix 10, to the double nearest to its decimal
  value.
\<close>

lemma parseInt_decimal:
  assumes "s \<noteq> []" "list_all is_decimal s"
  shows "parseInt s (Some 10) = to_double (int (digits_value 10 s))"
proof -
  from assms obtain c r where s: "s = c # r" by (cases s) auto
  with assms have c: "is_decimal c" by simp
  have tw: "takeWhile (is_digit_of 10) s = s"
    using assms(2) takeWhile_all [of "is_digit_of 10" s] by (simp add: is_decimal_def [abs_def])
  show ?thesis
    using not_white_decimal [OF c] decimal_not_sign [OF c] tw assms(1)
    by (simp add: parseInt_def s Let_def)
qed

lemma players_update_player [simp]:
  "players (update_player i f gs) = (players gs)[i := f (players gs ! i)]"
  by (simp add: update_player_def)

lemma map_update_same: "(map f xs)[i := f (xs ! i)] = map f xs"
  by (cases "i < length xs") (simp_all add: list_update_same_conv list_update_beyond)

lemma entities_resolveEntity:
  "entities (resolveEntity entity gs) =
     (entities gs)(f_entityId entity \<mapsto> merge_entity (entities gs (f_entityId entity)) entity)"
  by (simp add: resolveEntity_def Let_def)

section \<open>The mulligan result\<close>

text \<open>
  Claim C10, as amended. A mulligan-result fact applied while the mulligan is active, for
  the name of a registered player (\<open>i\<close> is the player \<open>getPlayerByName\<close> finds) and a
  count of cards left captured by \<open>\d+\<close>, sets that player's \<open>cardsReplacedInMulligan\<close>
  to \<open>DECK_CARD_COUNT - cardCount - cardsLeft\<close>, negative results included, when the count
  of cards left, \<open>DECK_CARD_COUNT - cardCount\<close> and the result are at most \<open>2^53\<close> in
  magnitude: the handler computes in doubles, which are exact in that range.
\<close>

theorem mulligan_result_count:
  assumes "mulliganActive gs"
    and "getPlayerByName gs (mr_name g) = Some i"
    and "mr_cardsLeft g \<noteq> []" and "list_all is_decimal (mr_cardsLeft g)"
    and "int (digits_value 10 (mr_cardsLeft g)) \<le> 2 ^ 53"
    and "\<bar>D - p_cardCount (players gs ! i)\<bar> \<le> 2 ^ 53"
    and "\<bar>D - p_cardCount (players gs ! i) - int (digits_value 10 (mr_cardsLeft g))\<bar> \<le> 2 ^ 53"
  shows "p_cardsReplacedInMulligan (players (snd (mulligan_result D g gs)) ! i) =
           Num (D - p_cardCount (players gs ! i) - int (digits_value 10 (mr_cardsLeft g)))"
proof -
  from assms(2) have i: "i < length (players gs)"
    using findIndex_SomeD by (fastforce simp: getPlayerByName_def)
  have p: "parseInt (mr_cardsLeft g) (Some 10) = Num (int (digits_value 10 (mr_cardsLeft g)))"
    using assms(3,4,5) by (simp add: parseInt_decimal to_double_exact)
  have "num_sub (num_sub (Num D) (Num (p_cardCount (players gs ! i))))
          (parseInt (mr_cardsLeft g) (Some 10)) =
        Num (D - p_cardCount (players gs ! i) - int (digits_value 10 (mr_cardsLeft g)))"
    unfolding p using assms(6,7) by (simp add: to_double_exact)
  with i assms(1,2) show ?thesis
    by (simp add: mulligan_result_def Let_def)
qed

text \<open>
  With a deck of 30, no card drawn and 27 cards left the result is 3; with 3 cards drawn
  and 28 left it is -1.
\<close>

theorem mulligan_result_count_witness:
  "p_cardsReplacedInMulligan
     (players (snd (mulligan_result 30 \<lparr>mr_name = ''Alice'', mr_cardsLeft = ''27''\<rparr>
        (new_GameState\<lparr>players := [newPlayer (Num 1) ''Alice'', newPlayer (Num 2) ''Bob''],
                        mulliganActive := True\<rparr>))) ! 0) = Num 3 \<and>
   p_cardsReplacedInMulligan
     (players (snd (mulligan_result 30 \<lparr>mr_name = ''Bob'', mr_cardsLeft = ''28''\<rparr>
        (new_GameState\<lparr>players := [newPlayer (Num 1) ''Alice'',
                                    (newPlayer (Num 2) ''Bob'')\<lparr>p_cardCount := 3\<rparr>],
                        mulliganActive := True\<rparr>))) ! 1) = Num (- 1)"
  using mulligan_result_count [of "new_GameState\<lparr>players := [newPlayer (Num 1) ''Alice'', newPlayer (Num 2) ''Bob''],
                        mulliganActive := True\<rparr>" "\<lparr>mr_name = ''Alice'', mr_cardsLeft = ''27''\<rparr>" 0 30]
    mulligan_result_count [of "new_GameState\<lparr>players := [newPlayer (Num 1) ''Alice'',
                                    (newPlayer (Num 2) ''Bob'')\<lparr>p_cardCount := 3\<rparr>],
                        mulliganActive := True\<rparr>" "\<lparr>mr_name = ''Bob'', mr_cardsLeft = ''28''\<rparr>" 1 30]
  by (simp add: getPlayerByName_def newPlayer_def is_decimal_def is_digit_of_def digit_val_def digits_value_def)

text \<open>
  Claim C10 as stated fails: with a deck of 30, no card drawn and a count of
  9007199254740993 cards left (\<open>2^53 + 1\<close>, which \<open>parseInt\<close> rounds to \<open>2^53\<close>) the
  handler stores -9007199254740962, where the exact difference is -9007199254740963.
\<close>

theorem mulligan_result_rounds_large_count:
  "p_cardsReplacedInMulligan
     (players (snd (mulligan_result 30 \<lparr>mr_name = ''Alice'', mr_cardsLeft = ''9007199254740993''\<rparr>
        (new_GameState\<lparr>players := [newPlayer (Num 1) ''Alice'', newPlayer (Num 2) ''Bob''],
                        mulliganActive := True\<rparr>))) ! 0) = Num (- 9007199254740962) \<and>
   30 - p_cardCount (newPlayer (Num 1) ''Alice'') - int (digits_value 10 ''9007199254740993'')
     = - 9007199254740963"
proof -
  have d: "digits_value 10 ''9007199254740993'' = 9007199254740993"
    by (simp add: digits_value_def digit_val_def)
  have p: "parseInt ''9007199254740993'' (Some 10) = Num 9007199254740992"
    using parseInt_decimal [of "''9007199254740993''"]
    by (simp add: d is_decimal_def is_digit_of_def digit_val_def to_double_def round53_def
        Let_def bit_length_eval)
  show ?thesis
    by (simp add: mulligan_result_def Let_def getPlayerByName_def newPlayer_def p d to_double_exact)
qed

section \<open>The batch loop and the change event\<close>

text \<open>
  No statement of \<open>parseLines\<close> sets \<open>updated\<close>: the results of the line parsers are
  dropped, so the loop never has \<open>updated = true\<close> and nothing is emitted, whether the
  batch comes to its end or a parser raises an error.
\<close>

lemma parse_loop_not_updated:
  "\<exists>r w'. parse_loop u ps g lines False t w em = (r, w', em) \<and> r \<noteq> Inr True"
proof (induction lines arbitrary: w)
  case Nil
  show ?case by simp
next
  case (Cons line rest)
  obtain r w1 where rp: "run_parsers ps line w = (r, w1)" by (cases "run_parsers ps line w")
  show ?case
  proof (cases r)
    case (Inl e)
    with rp show ?thesis by simp
  next
    case (Inr x)
    with rp Cons [of w1] show ?thesis by simp
  qed
qed

lemma parseLines_emits_nothing: "snd (snd (parseLines u ps g lines w)) = []"
proof -
  from parse_loop_not_updated [of u ps g lines "turnStartTime (g w)" w "[]"]
  obtain r w' where r: "parse_loop u ps g lines False (turnStartTime (g w)) w [] = (r, w', [])"
    and n: "r \<noteq> Inr True" by blast
  show ?thesis
  proof (cases r)
    case (Inl e)
    with r show ?thesis by (simp add: parseLines_def)
  next
    case (Inr b)
    with n have "\<not> b" by auto
    with r Inr show ?thesis by (simp add: parseLines_def)
  qed
qed

text \<open>
  A line of the past-begin-phase parser, and the same line for the game-start parser, whose
  label is not on it.
\<close>

lemma past_begin_phase_line:
  "makeFullRegex label_LoadingScreen_MulliganManager_HandleGameStart
     (literal_content ''IsPastBeginPhase()=False'')
     ''/[LoadingScreen] MulliganManager.HandleGameStart()/ -    /IsPastBeginPhase()=False/''
   = Some (''    '', ())"
  by (simp add: match_here_def label_LoadingScreen_MulliganManager_HandleGameStart_def
      literal_content_def isWhiteSpace_def numeral_eq_Suc)

lemma past_begin_phase_line_no_game_start:
  "makeFullRegex label_Power_GameState_DebugPrintPower (literal_content ''CREATE_GAME'')
     ''/[LoadingScreen] MulliganManager.HandleGameStart()/ -    /IsPastBeginPhase()=False/''
   = None"
  by (simp add: match_here_def label_Power_GameState_DebugPrintPower_def
      literal_content_def isWhiteSpace_def numeral_eq_Suc)

text \<open>
  Claim C3 (what the code does instead). In a batch of one line on which the
  past-begin-phase parser matches, that parser changes the state (it clears
  \<open>beginPhaseActive\<close>) and returns \<open>true\<close>; the batch comes to its end without an error
  and without a \<open>gamestate-changed\<close> event, whatever \<open>updateEveryTurn\<close> is.
\<close>

theorem parseLines_drops_mutation:
  "lineParserFactory label_LoadingScreen_MulliganManager_HandleGameStart
     (literal_content ''IsPastBeginPhase()=False'') (\<lambda>groups. past_begin_phase)
     ''/[LoadingScreen] MulliganManager.HandleGameStart()/ -    /IsPastBeginPhase()=False/''
     new_GameState = (Inr True, new_GameState\<lparr>beginPhaseActive := False\<rparr>) \<and>
   beginPhaseActive new_GameState \<and>
   parseLines updateEveryTurn
     [lineParserFactory label_Power_GameState_DebugPrintPower (literal_content ''CREATE_GAME'')
        (\<lambda>groups. game_start 1000),
      lineParserFactory label_LoadingScreen_MulliganManager_HandleGameStart
        (literal_content ''IsPastBeginPhase()=False'') (\<lambda>groups. past_begin_phase)]
     (\<lambda>gs. gs)
     [''/[LoadingScreen] MulliganManager.HandleGameStart()/ -    /IsPastBeginPhase()=False/'']
     new_GameState = (Inr (), new_GameState\<lparr>beginPhaseActive := False\<rparr>, [])"
  unfolding parseLines_def parse_loop.simps run_parsers.simps lineParserFactory_def
    past_begin_phase_line past_begin_phase_line_no_game_start
  by (simp add: past_begin_phase_def new_GameState_def reset_def)

section \<open>Reading a file that shrank\<close>

text \<open>
  Claim C7 (what the code does instead). When the new size \<open>endByte\<close> is smaller than the
  last read offset \<open>startByte\<close> and the file ends before \<open>startByte\<close>, \<open>readLogFile\<close>
  still reads at the position \<open>startByte\<close>: no byte of the file is read, and the lines
  returned are those of \<open>endByte\<close> zero bytes, not of the first \<open>endByte\<close> bytes of the
  file.
\<close>

theorem readLogFile_shrunk:
  assumes "endByte < startByte" and "length file \<le> startByte"
  shows "readLogFile file startByte endByte = splitLines (replicate endByte (CHR 0x00))"
  using assms by (simp add: readLogFile_def fs_read_def Let_def)

text \<open>
  A file of the three bytes \<open>ab\<close> and a line feed, read after an offset of 10: the result
  is one line of three zero bytes, where the first three bytes of the file are the lines
  \<open>ab\<close> and the empty line.
\<close>

theorem readLogFile_shrunk_witness:
  "readLogFile [CHR ''a'', CHR ''b'', CHR 0x0A] 10 3 = [[CHR 0x00, CHR 0x00, CHR 0x00]] \<and>
   splitLines (take 3 [CHR ''a'', CHR ''b'', CHR 0x0A]) = [''ab'', []]"
  using readLogFile_shrunk [of 3 10 "[CHR ''a'', CHR ''b'', CHR 0x0A]"]
  by (simp add: splitLines_def strip_cr_def numeral_eq_Suc)

section \<open>The block parser\<close>

text \<open>
  The capture \<open>indent\<close> of \<open>makeFullRegex\<close> is white space only, and \<open>parseInt\<close> of
  white space is \<open>NaN\<close>.
\<close>

lemma take_takeWhile_all:
  "n \<le> length (takeWhile P xs) \<Longrightarrow> list_all P (take n xs)"
proof (induction xs arbitrary: n)
  case Nil
  then show ?case by simp
next
  case (Cons x xs)
  then show ?case by (cases n) (auto split: if_splits)
qed

lemma try_indents_white:
  "try_indents content rest k = Some (ind, g) \<Longrightarrow> k \<le> length (takeWhile isWhiteSpace rest) \<Longrightarrow>
   ind \<noteq> [] \<and> list_all isWhiteSpace ind"
proof (induction k)
  case 0
  then show ?case by simp
next
  case (Suc k)
  show ?case
  proof (cases "content (drop (Suc k) rest)")
    case None
    with Suc show ?thesis by simp
  next
    case (Some a)
    with Suc.prems have ind: "ind = take (Suc k) rest" by simp
    from Suc.prems(2) have "Suc k \<le> length rest"
      using length_takeWhile_le [of isWhiteSpace rest] by linarith
    then have "ind \<noteq> []" by (auto simp: ind)
    moreover have "list_all isWhiteSpace ind"
      unfolding ind by (rule take_takeWhile_all [OF Suc.prems(2)])
    ultimately show ?thesis by simp
  qed
qed

lemma match_here_white:
  assumes "match_here label content s = Some (ind, g)"
  shows "ind \<noteq> [] \<and> list_all isWhiteSpace ind"
proof -
  define rest where "rest = drop (length (map Lit ''/'' @ label @ map Lit ''/ -'')) s"
  from assms have "try_indents content rest (length (takeWhile isWhiteSpace rest)) = Some (ind, g)"
    unfolding match_here_def rest_def Let_def by (simp split: if_splits)
  from try_indents_white [OF this] show ?thesis by simp
qed

lemma makeFullRegex_white:
  "makeFullRegex label content line = Some (ind, g) \<Longrightarrow> ind \<noteq> [] \<and> list_all isWhiteSpace ind"
proof (induction line)
  case Nil
  then show ?case using match_here_white [of label content "[]" ind g] by simp
next
  case (Cons c cs)
  show ?case
  proof (cases "match_here label content (c # cs)")
    case None
    with Cons show ?thesis by simp
  next
    case (Some m)
    with Cons.prems have "match_here label content (c # cs) = Some (ind, g)" by simp
    then show ?thesis by (rule match_here_white)
  qed
qed

lemma parseInt_white: "list_all isWhiteSpace s \<Longrightarrow> parseInt s radix = NaN"
proof -
  assume "list_all isWhiteSpace s"
  then have s1: "dropWhile isWhiteSpace s = []"
    by (simp add: list_all_iff)
  show ?thesis unfolding parseInt_def s1 by (simp add: Let_def)
qed

text \<open>
  Claim C6 (what the code does instead). A line that does not match the start pattern is
  never forwarded to the block line parser: whatever the block state, the indentation
  stored at the start line and the line are, the block parser returns \<open>false\<close> and leaves
  the block state and the game state as they were. The test
  \<open>parseInt(indentMatches.groups.indent) === indent\<close> compares \<open>NaN\<close> with the stored
  width.
\<close>

theorem blockParser_never_forwards:
  assumes "makeFullRegex label startRegex line = None"
  shows "blockParserFactory label startRegex initializeBlockState blockLineParser line (st, gs) =
           (False, st, gs)"
proof (cases "bp_blockState st")
  case None
  with assms show ?thesis
    unfolding blockParserFactory_def Let_def by simp
next
  case bs: (Some blockState)
  show ?thesis
  proof (cases "makeFullRegex label any_content line")
    case None
    with assms bs show ?thesis
      unfolding blockParserFactory_def Let_def by simp
  next
    case (Some m)
    obtain ind u where m: "m = (ind, u)" by (cases m)
    from Some m have "list_all isWhiteSpace ind"
      using makeFullRegex_white [of label any_content line ind u] by simp
    then have "parseInt ind None = NaN"
      by (rule parseInt_white)
    with assms bs Some m show ?thesis
      unfolding blockParserFactory_def Let_def by simp
  qed
qed


lemma card_init_no_start:
  "makeFullRegex label_Power_GameState_DebugPrintPower card_init_start
     ''/[Power] GameState.DebugPrintPower()/ -    /tag=HEALTH value=3/'' = None"
  by (simp add: match_here_def label_Power_GameState_DebugPrintPower_def card_init_start_def
      isWhiteSpace_def numeral_eq_Suc Let_def)

lemma card_init_same_indent:
  "makeFullRegex label_Power_GameState_DebugPrintPower any_content
     ''/[Power] GameState.DebugPrintPower()/ -    /tag=HEALTH value=3/'' = Some (''    '', ())"
  by (simp add: match_here_def label_Power_GameState_DebugPrintPower_def any_content_def
      isWhiteSpace_def numeral_eq_Suc Let_def)

lemma card_init_start_line:
  "makeFullRegex label_Power_GameState_DebugPrintPower card_init_start
     ''/[Power] GameState.DebugPrintPower()/ -    /FULL_ENTITY - Creating ID=12 CardID=EX1_001/''
   = Some (''    '', \<lparr>ci_entityId = ''12'', ci_cardId = ''EX1_001''\<rparr>)"
  by (simp add: match_here_def label_Power_GameState_DebugPrintPower_def card_init_start_def
      isWhiteSpace_def numeral_eq_Suc Let_def is_decimal_def is_digit_of_def digit_val_def)

text \<open>
  The block parser \<open>card-init\<close> in a started game: a start line with an indentation of
  width 4 opens the block; the next line has the same label and an indentation of width 4,
  and the block line parser (here one that would clear \<open>beginPhaseActive\<close>) is not run on
  it.
\<close>

theorem blockParser_never_forwards_witness:
  "blockParserFactory label_Power_GameState_DebugPrintPower card_init_start
     card_init_initializeBlockState (\<lambda>line gs bs. (gs\<lparr>beginPhaseActive := False\<rparr>, bs))
     ''/[Power] GameState.DebugPrintPower()/ -    /FULL_ENTITY - Creating ID=12 CardID=EX1_001/''
     (\<lparr>bp_blockState = None, bp_indent = 0\<rparr>, start 1000 new_GameState)
   = (False, \<lparr>bp_blockState = Some \<lparr>ci_entityId = ''12'', ci_cardId = ''EX1_001''\<rparr>, bp_indent = 4\<rparr>,
      start 1000 new_GameState) \<and>
   makeFullRegex label_Power_GameState_DebugPrintPower any_content
     ''/[Power] GameState.DebugPrintPower()/ -    /tag=HEALTH value=3/'' = Some (''    '', ()) \<and>
   blockParserFactory label_Power_GameState_DebugPrintPower card_init_start
     card_init_initializeBlockState (\<lambda>line gs bs. (gs\<lparr>beginPhaseActive := False\<rparr>, bs))
     ''/[Power] GameState.DebugPrintPower()/ -    /tag=HEALTH value=3/''
     (\<lparr>bp_blockState = Some \<lparr>ci_entityId = ''12'', ci_cardId = ''EX1_001''\<rparr>, bp_indent = 4\<rparr>,
      start 1000 new_GameState)
   = (False, \<lparr>bp_blockState = Some \<lparr>ci_entityId = ''12'', ci_cardId = ''EX1_001''\<rparr>, bp_indent = 4\<rparr>,
      start 1000 new_GameState)"
proof -
  have a: "blockParserFactory label_Power_GameState_DebugPrintPower card_init_start
     card_init_initializeBlockState (\<lambda>line gs bs. (gs\<lparr>beginPhaseActive := False\<rparr>, bs))
     ''/[Power] GameState.DebugPrintPower()/ -    /FULL_ENTITY - Creating ID=12 CardID=EX1_001/''
     (\<lparr>bp_blockState = None, bp_indent = 0\<rparr>, start 1000 new_GameState)
   = (False, \<lparr>bp_blockState = Some \<lparr>ci_entityId = ''12'', ci_cardId = ''EX1_001''\<rparr>, bp_indent = 4\<rparr>,
      start 1000 new_GameState)"
    unfolding blockParserFactory_def card_init_start_line
    by (simp add: card_init_initializeBlockState_def active_def complete_def start_def reset_def
        new_GameState_def)
  show ?thesis
    using a card_init_same_indent blockParser_never_forwards [OF card_init_no_start]
    by blast
qed


section \<open>Game over\<close>

lemma findIndex_update_same:
  "(\<And>x. P (f x) = P x) \<Longrightarrow> findIndex P (xs[i := f (xs ! i)]) = findIndex P xs"
proof (induction xs arbitrary: i)
  case Nil
  then show ?case by simp
next
  case (Cons x xs)
  then show ?case by (cases i) simp_all
qed

lemma game_over_count:
  "gameOverCount (snd (game_over now_turn now_match g gs)) = gameOverCount gs + 1"
  by (simp add: game_over_def Let_def update_player_def split: option.splits)

lemma game_over_startTime:
  "startTime (snd (game_over now_turn now_match g gs)) = startTime gs"
  by (simp add: game_over_def Let_def update_player_def split: option.splits)

lemma game_overs_count:
  "gameOverCount (game_overs fs gs) = gameOverCount gs + int (length fs)"
  by (induction fs arbitrary: gs) (simp_all add: game_over_count)

lemma game_overs_startTime: "startTime (game_overs fs gs) = startTime gs"
  by (induction fs arbitrary: gs) (simp_all add: game_over_startTime)

text \<open>The state after the status assignment of the game-over handler.\<close>

lemma game_over_status_step:
  fixes gs g
  defines "gs1 \<equiv> (case getPlayerByName gs (go_playerName g) of
                   Some player \<Rightarrow>
                     if go_status g = ''WON'' \<or> go_status g = ''LOST'' \<or> go_status g = ''TIED''
                     then update_player player (\<lambda>p. p\<lparr>p_status := go_status g\<rparr>) gs
                     else gs
                 | None \<Rightarrow> gs)"
  shows "findIndex p_turn (players gs1) = findIndex p_turn (players gs)"
    and "map p_turnHistory (players gs1) = map p_turnHistory (players gs)"
    and "startTime gs1 = startTime gs" and "gameOverCount gs1 = gameOverCount gs"
    and "length (players gs1) = length (players gs)"
  unfolding gs1_def
  by (auto simp: findIndex_update_same update_player_def map_update map_update_same
      split: option.splits)

text \<open>
  Claim C4, as amended. Every terminal-status line adds one to \<open>gameOverCount\<close>, so in a
  run of such lines the count is 2 after exactly one of them (the second, when the run
  starts at 0). A line applied when the count is already at least 1 (the second line and
  every later one) sets \<open>matchDuration\<close> to its own \<open>now - startTime\<close>, and the first
  player whose turn flag is set has the last entry of a non-empty \<open>turnHistory\<close> closed
  with the duration \<open>now - startTime\<close> of that entry. A third line therefore stamps
  \<open>matchDuration\<close> again.
\<close>

theorem game_over_second_and_later:
  assumes "startTime gs = Some s" and "1 \<le> gameOverCount gs"
  shows "gameOverCount (snd (game_over now_turn now_match g gs)) = gameOverCount gs + 1 \<and>
         matchDuration (snd (game_over now_turn now_match g gs)) = Some (Num (now_match - s)) \<and>
         (\<forall>i h. findIndex p_turn (players gs) = Some i \<and> p_turnHistory (players gs ! i) = h \<and> h \<noteq> [] \<longrightarrow>
            p_turnHistory (players (snd (game_over now_turn now_match g gs)) ! i) =
              butlast h @ [(last h)\<lparr>t_duration := Some (now_turn - t_startTime (last h))\<rparr>]) \<and>
         (\<forall>k\<le>length fs. (gameOverCount (game_overs (take k fs) gs0) = 2) =
            (int k = 2 - gameOverCount gs0))"
proof -
  define gs1 where "gs1 = (case getPlayerByName gs (go_playerName g) of
                   Some player \<Rightarrow>
                     if go_status g = ''WON'' \<or> go_status g = ''LOST'' \<or> go_status g = ''TIED''
                     then update_player player (\<lambda>p. p\<lparr>p_status := go_status g\<rparr>) gs
                     else gs
                 | None \<Rightarrow> gs)"
  note st = game_over_status_step [of gs g, folded gs1_def]
  have go: "snd (game_over now_turn now_match g gs) =
     (let gs2 = gs1\<lparr>gameOverCount := gameOverCount gs1 + 1\<rparr>;
          gs2a = (case findIndex p_turn (players gs2) of
                                 Some currentPlayer \<Rightarrow>
                                   update_player currentPlayer
                                     (\<lambda>p. p\<lparr>p_turnHistory := close_last_turn now_turn (p_turnHistory p)\<rparr>) gs2
                               | None \<Rightarrow> gs2)
      in gs2a\<lparr>matchDuration := Some (Num (now_match - s))\<rparr>)"
    using assms st(3,4) unfolding game_over_def gs1_def [symmetric] Let_def
    by (simp add: update_player_def split: option.splits)
  have c1: "gameOverCount (snd (game_over now_turn now_match g gs)) = gameOverCount gs + 1"
    by (rule game_over_count)
  have c2: "matchDuration (snd (game_over now_turn now_match g gs)) = Some (Num (now_match - s))"
    unfolding go Let_def by simp
  have c3: "p_turnHistory (players (snd (game_over now_turn now_match g gs)) ! i) =
              butlast h @ [(last h)\<lparr>t_duration := Some (now_turn - t_startTime (last h))\<rparr>]"
    if "findIndex p_turn (players gs) = Some i" "p_turnHistory (players gs ! i) = h" "h \<noteq> []" for i h
  proof -
    from that(1) have i: "i < length (players gs)" using findIndex_SomeD by fastforce
    have h1: "p_turnHistory (players gs1 ! i) = h"
      using st(2) st(5) i that(2) by (metis nth_map)
    show ?thesis
      unfolding go Let_def using that st(1) st(5) i h1
      by (simp add: update_player_def close_last_turn_def)
  qed
  have c4: "(gameOverCount (game_overs (take k fs) gs0) = 2) = (int k = 2 - gameOverCount gs0)"
    if "k \<le> length fs" for k
    using that by (auto simp: game_overs_count min_def)
  from c1 c2 c3 c4 show ?thesis by blast
qed


text \<open>
  The second terminal-status line of the example match: the count becomes 2, the match
  duration is 6100 - 1000 and Alice's turn, begun at 2000, is closed at 6000.
\<close>

theorem game_over_second_and_later_witness:
  "gameOverCount (snd (game_over 6000 6100 \<lparr>go_playerName = ''Bob'', go_status = ''LOST''\<rparr>
      (game_overs [(5000, 5000, \<lparr>go_playerName = ''Alice'', go_status = ''WON''\<rparr>)] two_player_game))) = 2 \<and>
   matchDuration (snd (game_over 6000 6100 \<lparr>go_playerName = ''Bob'', go_status = ''LOST''\<rparr>
      (game_overs [(5000, 5000, \<lparr>go_playerName = ''Alice'', go_status = ''WON''\<rparr>)] two_player_game)))
     = Some (Num 5100) \<and>
   p_turnHistory (players (snd (game_over 6000 6100 \<lparr>go_playerName = ''Bob'', go_status = ''LOST''\<rparr>
      (game_overs [(5000, 5000, \<lparr>go_playerName = ''Alice'', go_status = ''WON''\<rparr>)] two_player_game))) ! 0)
     = [\<lparr>t_startTime = 2000, t_duration = Some 4000\<rparr>]"
proof -
  define gs where "gs = game_overs [(5000, 5000, \<lparr>go_playerName = ''Alice'', go_status = ''WON''\<rparr>)] two_player_game"
  have h1: "startTime gs = Some 1000" unfolding gs_def by code_simp
  have h2: "1 \<le> gameOverCount gs" unfolding gs_def by code_simp
  have h3: "gameOverCount gs = 1" unfolding gs_def by code_simp
  have h4: "findIndex p_turn (players gs) = Some 0" unfolding gs_def by code_simp
  have h5: "p_turnHistory (players gs ! 0) = [\<lparr>t_startTime = 2000, t_duration = None\<rparr>]"
    unfolding gs_def by code_simp
  from game_over_second_and_later [OF h1 h2, where now_turn = 6000 and now_match = 6100
      and g = "\<lparr>go_playerName = ''Bob'', go_status = ''LOST''\<rparr>" and fs = "[]" and ?gs0.0 = gs]
    h3 h4 h5
  show ?thesis unfolding gs_def [symmetric] by simp
qed

text \<open>
  Claim C4 as stated fails: a third terminal-status line, at time 9000, changes
  \<open>matchDuration\<close> from 5100 to 8000 (and the count goes on to 3).
\<close>

theorem game_over_third_restamps:
  "matchDuration (game_overs
      [(5000, 5000, \<lparr>go_playerName = ''Alice'', go_status = ''WON''\<rparr>),
       (6000, 6100, \<lparr>go_playerName = ''Bob'', go_status = ''LOST''\<rparr>)] two_player_game)
     = Some (Num 5100) \<and>
   matchDuration (game_overs
      [(5000, 5000, \<lparr>go_playerName = ''Alice'', go_status = ''WON''\<rparr>),
       (6000, 6100, \<lparr>go_playerName = ''Bob'', go_status = ''LOST''\<rparr>),
       (9000, 9000, \<lparr>go_playerName = ''Bob'', go_status = ''LOST''\<rparr>)] two_player_game)
     = Some (Num 8000) \<and>
   gameOverCount (game_overs
      [(5000, 5000, \<lparr>go_playerName = ''Alice'', go_status = ''WON''\<rparr>),
       (6000, 6100, \<lparr>go_playerName = ''Bob'', go_status = ''LOST''\<rparr>),
       (9000, 9000, \<lparr>go_playerName = ''Bob'', go_status = ''LOST''\<rparr>)] two_player_game) = 3"
  by code_simp

section \<open>Turn changes\<close>

text \<open>
  Claim C5, as amended. After a turn-change fact for a registered player \<open>i\<close>, in a game
  of two players with different ids, exactly one of the two players has the turn flag (the
  named one when the value is \<open>1\<close>, the other one otherwise). With
  the value \<open>1\<close> the named player's \<open>turnHistory\<close> gains a new entry without duration;
  with another value the last entry of the named player's \<open>turnHistory\<close>, if any, gets the
  duration \<open>now - startTime\<close>. The \<open>turnHistory\<close> of the other player is not touched:
  the previous holder's entry is closed by that player's own fact, not by the fact of the
  new holder.
\<close>

theorem turn_change_effect:
  assumes "players gs = [a, b]" and "p_id a = Num x" and "p_id b = Num y" and "x \<noteq> y"
    and "getPlayerByName gs (tc_playerName g) = Some i"
  shows "length (players (snd (turn_change now g gs))) = 2 \<and>
         p_turn (players (snd (turn_change now g gs)) ! i) = (tc_turn g = ''1'') \<and>
         p_turn (players (snd (turn_change now g gs)) ! (1 - i)) = (tc_turn g \<noteq> ''1'') \<and>
         p_turnHistory (players (snd (turn_change now g gs)) ! (1 - i)) =
           p_turnHistory (players gs ! (1 - i)) \<and>
         (tc_turn g = ''1'' \<longrightarrow>
            p_turnHistory (players (snd (turn_change now g gs)) ! i) =
              p_turnHistory (players gs ! i) @ [\<lparr>t_startTime = now, t_duration = None\<rparr>]) \<and>
         (tc_turn g \<noteq> ''1'' \<and> p_turnHistory (players gs ! i) \<noteq> [] \<longrightarrow>
            p_turnHistory (players (snd (turn_change now g gs)) ! i) =
              butlast (p_turnHistory (players gs ! i)) @
              [(last (p_turnHistory (players gs ! i)))
                 \<lparr>t_duration := Some (now - t_startTime (last (p_turnHistory (players gs ! i))))\<rparr>]) \<and>
         (tc_turn g \<noteq> ''1'' \<and> p_turnHistory (players gs ! i) = [] \<longrightarrow>
            p_turnHistory (players (snd (turn_change now g gs)) ! i) = [])"
proof -
  from assms(5) have "i < length (players gs)"
    using findIndex_SomeD by (fastforce simp: getPlayerByName_def)
  with assms(1) have "i = 0 \<or> i = 1" by auto
  then show ?thesis
  proof
    assume "i = 0"
    with assms show ?thesis
      by (simp add: turn_change_def getOpponentPlayer_def update_player_def Let_def
          close_last_turn_def)
  next
    assume "i = 1"
    with assms show ?thesis
      by (simp add: turn_change_def getOpponentPlayer_def update_player_def Let_def
          close_last_turn_def)
  qed
qed


text \<open>
  Claim C5 as stated fails: in the example match Alice holds the turn; the fact that gives
  Bob the turn at time 3000 opens Bob's entry and leaves Alice's last entry without a
  duration.
\<close>

theorem turn_change_leaves_previous_open:
  "map p_turn (players (snd (turn_change 3000 \<lparr>tc_playerName = ''Bob'', tc_turn = ''1''\<rparr> two_player_game)))
     = [False, True] \<and>
   map p_turnHistory (players two_player_game) = [[\<lparr>t_startTime = 2000, t_duration = None\<rparr>], []] \<and>
   map p_turnHistory (players (snd (turn_change 3000 \<lparr>tc_playerName = ''Bob'', tc_turn = ''1''\<rparr> two_player_game)))
     = [[\<lparr>t_startTime = 2000, t_duration = None\<rparr>], [\<lparr>t_startTime = 3000, t_duration = None\<rparr>]]"
  by code_simp


lemma two_player_game_players:
  "players two_player_game =
     [(newPlayer (Num 1) ''Alice'')\<lparr>p_turn := True,
         p_turnHistory := [\<lparr>t_startTime = 2000, t_duration = None\<rparr>]\<rparr>,
      newPlayer (Num 2) ''Bob'']"
  by code_simp

text \<open>
  In the example match, the fact that ends Alice's turn at time 5000 closes her entry with
  the duration 3000, and the fact that gives Bob the turn at 6000 opens his.
\<close>

theorem turn_change_effect_witness:
  "p_turn (players (snd (turn_change 5000 \<lparr>tc_playerName = ''Alice'', tc_turn = ''0''\<rparr> two_player_game)) ! 0) = False \<and>
   p_turn (players (snd (turn_change 5000 \<lparr>tc_playerName = ''Alice'', tc_turn = ''0''\<rparr> two_player_game)) ! 1) = True \<and>
   p_turnHistory (players (snd (turn_change 5000 \<lparr>tc_playerName = ''Alice'', tc_turn = ''0''\<rparr> two_player_game)) ! 0)
     = [\<lparr>t_startTime = 2000, t_duration = Some 3000\<rparr>] \<and>
   p_turnHistory (players (snd (turn_change 5000 \<lparr>tc_playerName = ''Alice'', tc_turn = ''0''\<rparr> two_player_game)) ! 1)
     = [] \<and>
   p_turnHistory (players (snd (turn_change 6000 \<lparr>tc_playerName = ''Bob'', tc_turn = ''1''\<rparr> two_player_game)) ! 1)
     = [\<lparr>t_startTime = 6000, t_duration = None\<rparr>]"
proof -
  have n: "getPlayerByName two_player_game ''Alice'' = Some 0"
    "getPlayerByName two_player_game ''Bob'' = Some 1"
    by code_simp+
  have ids: "p_id (newPlayer (Num 2) ''Bob'') = Num 2"
    "p_id ((newPlayer (Num 1) ''Alice'')\<lparr>p_turn := True,
         p_turnHistory := [\<lparr>t_startTime = 2000, t_duration = None\<rparr>]\<rparr>) = Num 1"
    by (simp_all add: newPlayer_def)
  have ne: "(1::int) \<noteq> 2" by simp
  note A = turn_change_effect [OF two_player_game_players ids(2) ids(1) ne,
      where g = "\<lparr>tc_playerName = ''Alice'', tc_turn = ''0''\<rparr>" and i = 0 and now = 5000]
  note B = turn_change_effect [OF two_player_game_players ids(2) ids(1) ne,
      where g = "\<lparr>tc_playerName = ''Bob'', tc_turn = ''1''\<rparr>" and i = 1 and now = 6000]
  from A B n show ?thesis
    by (simp add: two_player_game_players newPlayer_def)
qed

section \<open>Soft data misses\<close>

lemma zone_change_card_miss:
  "cardData cardsJson (zc_cardId z) = None \<Longrightarrow>
   snd (zone_change cardsJson questMap secretToClass t1 t2 z gs) = gs"
  by (simp add: zone_change_def Let_def)

text \<open>On a card miss the handler raises at its diagnostic, before \<open>return false\<close>.\<close>

lemma zone_change_card_miss_raises:
  "cardData cardsJson (zc_cardId z) = None \<Longrightarrow>
   fst (zone_change cardsJson questMap secretToClass t1 t2 z gs) = Inl TypeError"
  by (simp add: zone_change_def Let_def log_then_return_def logger_log_def)

lemma zone_change_player_miss:
  "cardData cardsJson (zc_cardId z) \<noteq> None \<Longrightarrow>
   getPlayerById gs (parseInt (zc_playerId z) None) = None \<Longrightarrow>
   zone_change cardsJson questMap secretToClass t1 t2 z gs = (Inr False, gs)"
  by (auto simp: zone_change_def Let_def)

lemma zone_change_opponent_miss:
  "cardData cardsJson (zc_cardId z) \<noteq> None \<Longrightarrow>
   getPlayerById gs (parseInt (zc_playerId z) None) = Some i \<Longrightarrow> getOpponentPlayer gs i = None \<Longrightarrow>
   zone_change cardsJson questMap secretToClass t1 t2 z gs = (Inr False, gs)"
  by (auto simp: zone_change_def Let_def)

lemma mulligan_result_player_miss:
  "getPlayerByName gs (mr_name m) = None \<Longrightarrow> mulligan_result D m gs = (Inr False, gs)"
  by (simp add: mulligan_result_def Let_def)

lemma turn_change_player_miss:
  "getPlayerByName gs (tc_playerName t) = None \<Longrightarrow> turn_change now t gs = (Inr False, gs)"
  by (simp add: turn_change_def)

lemma tag_change_player_miss:
  "getPlayerById gs (parseInt (tg_playerId q) None) = None \<Longrightarrow> snd (tag_change q gs) = gs"
  by (simp add: tag_change_def Let_def)

lemma tag_change_quest_miss:
  "getPlayerById gs (parseInt (tg_playerId q) None) = Some i \<Longrightarrow>
   findIndex (\<lambda>quest. seq (q_entityId quest) (parseInt (tg_entityId q) None)) (p_quests (players gs ! i)) = None \<Longrightarrow>
   snd (tag_change q gs) = gs"
  by (simp add: tag_change_def Let_def)

lemma game_over_player_miss:
  "getPlayerByName gs (go_playerName o') = None \<Longrightarrow>
   gameOverCount (snd (game_over n1 n2 o' gs)) = gameOverCount gs + 1 \<and>
   map p_status (players (snd (game_over n1 n2 o' gs))) = map p_status (players gs)"
  by (simp add: game_over_def Let_def update_player_def map_update map_update_same
      split: option.splits)

lemma game_tag_change_player_miss:
  assumes "gt_tag k = ''TIMEOUT'' \<or> gt_tag k = ''RESOURCES''"
    and "getPlayerByName gs (gt_entity k) = None"
  shows "snd (game_tag_change now k gs) = gs"
  using assms(1)
proof
  assume "gt_tag k = ''TIMEOUT''"
  with assms(2) show ?thesis
    unfolding game_tag_change_def Let_def by (cases "gt_entity k = ''GameEntity''") simp_all
next
  assume "gt_tag k = ''RESOURCES''"
  with assms(2) show ?thesis
    unfolding game_tag_change_def Let_def by (cases "gt_entity k = ''GameEntity''") simp_all
qed

text \<open>
  Claim C9, as amended. The zone-change handler leaves the game state as it was when the
  read \<open>cardData[cardId]\<close> finds nothing; when it finds a card, the handler returns
  \<open>false\<close> and leaves the game state as it was when the player of the fact is not
  registered and when that player has no opponent. The mulligan-result and the turn-change
  handler return \<open>false\<close> and leave the game state as it was for a name that is not
  registered. The tag-change handler leaves the game state as it was for a player or a quest
  that is not registered. The game-over handler does not abort for a name that is not
  registered: it skips the status only and counts the line. The generic tag handler leaves
  the state as it was for a \<open>TIMEOUT\<close> or \<open>RESOURCES\<close> tag of a name that is not
  registered.
\<close>

theorem soft_miss_aborts:
  "(cardData cardsJson (zc_cardId z) = None \<longrightarrow>
      snd (zone_change cardsJson questMap secretToClass t1 t2 z gs) = gs) \<and>
   (cardData cardsJson (zc_cardId z) \<noteq> None \<and>
    getPlayerById gs (parseInt (zc_playerId z) None) = None \<longrightarrow>
      zone_change cardsJson questMap secretToClass t1 t2 z gs = (Inr False, gs)) \<and>
   (\<forall>i. cardData cardsJson (zc_cardId z) \<noteq> None \<and>
        getPlayerById gs (parseInt (zc_playerId z) None) = Some i \<and> getOpponentPlayer gs i = None \<longrightarrow>
      zone_change cardsJson questMap secretToClass t1 t2 z gs = (Inr False, gs)) \<and>
   (getPlayerByName gs (mr_name m) = None \<longrightarrow> mulligan_result D m gs = (Inr False, gs)) \<and>
   (getPlayerByName gs (tc_playerName t) = None \<longrightarrow> turn_change now t gs = (Inr False, gs)) \<and>
   (getPlayerById gs (parseInt (tg_playerId q) None) = None \<longrightarrow> snd (tag_change q gs) = gs) \<and>
   (\<forall>i. getPlayerById gs (parseInt (tg_playerId q) None) = Some i \<and>
        findIndex (\<lambda>quest. seq (q_entityId quest) (parseInt (tg_entityId q) None))
          (p_quests (players gs ! i)) = None \<longrightarrow>
      snd (tag_change q gs) = gs) \<and>
   (getPlayerByName gs (go_playerName o') = None \<longrightarrow>
      gameOverCount (snd (game_over n1 n2 o' gs)) = gameOverCount gs + 1 \<and>
      map p_status (players (snd (game_over n1 n2 o' gs))) = map p_status (players gs)) \<and>
   ((gt_tag k = ''TIMEOUT'' \<or> gt_tag k = ''RESOURCES'') \<and> getPlayerByName gs (gt_entity k) = None \<longrightarrow>
      snd (game_tag_change now k gs) = gs)"
  using zone_change_card_miss [of cardsJson z questMap secretToClass t1 t2 gs]
    zone_change_player_miss [of cardsJson z gs questMap secretToClass t1 t2]
    zone_change_opponent_miss [of cardsJson z gs _ questMap secretToClass t1 t2]
    mulligan_result_player_miss [of gs m D]
    turn_change_player_miss [of gs t now]
    tag_change_player_miss [of gs q]
    tag_change_quest_miss [of gs q]
    game_over_player_miss [of gs o' n1 n2]
    game_tag_change_player_miss [of k gs now]
  by blast

text \<open>
  Claim C9 as stated fails for the game-over handler: Carol is not registered in the
  example match, and her terminal-status line moves \<open>gameOverCount\<close> from 0 to 1.
\<close>

theorem game_over_counts_unknown_player:
  "getPlayerByName mulligan_game ''Carol'' = None \<and>
   gameOverCount mulligan_game = 0 \<and>
   gameOverCount (snd (game_over 5000 5000 \<lparr>go_playerName = ''Carol'', go_status = ''WON''\<rparr> mulligan_game)) = 1"
  by code_simp

text \<open>
  Misses in the example match, after the mulligan has started: a card id that the table
  does not have, the player id 3, the name Carol, and the entity 7, which is no quest of
  Alice; and a zone change for Alice in a game that she alone has joined.
\<close>

theorem soft_miss_aborts_witness:
  "mulliganActive mulligan_game \<and>
   snd (zone_change example_cardData Map.empty Map.empty 0 0
     \<lparr>zc_entityName = ''Fireball'', zc_entityId = ''7'', zc_cardId = ''NOPE'', zc_playerId = ''1'',
      zc_fromTeam = None, zc_fromZone = None, zc_toTeam = Some Friendly, zc_toZone = Some ''HAND''\<rparr>
     mulligan_game) = mulligan_game \<and>
   zone_change example_cardData Map.empty Map.empty 0 0
     \<lparr>zc_entityName = ''Fireball'', zc_entityId = ''7'', zc_cardId = ''CS2_029'', zc_playerId = ''3'',
      zc_fromTeam = None, zc_fromZone = None, zc_toTeam = Some Friendly, zc_toZone = Some ''HAND''\<rparr>
     mulligan_game = (Inr False, mulligan_game) \<and>
   mulligan_result 30 \<lparr>mr_name = ''Carol'', mr_cardsLeft = ''27''\<rparr> mulligan_game
     = (Inr False, mulligan_game) \<and>
   turn_change 3000 \<lparr>tc_playerName = ''Carol'', tc_turn = ''1''\<rparr> mulligan_game
     = (Inr False, mulligan_game) \<and>
   snd (tag_change \<lparr>tg_cardName = ''Quest'', tg_entityId = ''7'', tg_cardId = ''UNG_940'', tg_playerId = ''3'',
      tg_tag = ''QUEST_PROGRESS'', tg_value = ''2''\<rparr> mulligan_game) = mulligan_game \<and>
   gameOverCount (snd (game_over 5000 5000 \<lparr>go_playerName = ''Carol'', go_status = ''WON''\<rparr> mulligan_game))
     = gameOverCount mulligan_game + 1 \<and>
   snd (game_tag_change 5000 \<lparr>gt_entity = ''Carol'', gt_tag = ''TIMEOUT'', gt_value = ''75''\<rparr> mulligan_game)
     = mulligan_game \<and>
   snd (game_tag_change 5000 \<lparr>gt_entity = ''Carol'', gt_tag = ''RESOURCES'', gt_value = ''4''\<rparr> mulligan_game)
     = mulligan_game \<and>
   snd (tag_change \<lparr>tg_cardName = ''Quest'', tg_entityId = ''7'', tg_cardId = ''UNG_940'', tg_playerId = ''1'',
      tg_tag = ''QUEST_PROGRESS'', tg_value = ''2''\<rparr> mulligan_game) = mulligan_game \<and>
   zone_change example_cardData Map.empty Map.empty 0 0
     \<lparr>zc_entityName = ''Fireball'', zc_entityId = ''7'', zc_cardId = ''CS2_029'', zc_playerId = ''1'',
      zc_fromTeam = None, zc_fromZone = None, zc_toTeam = Some Friendly, zc_toZone = Some ''HAND''\<rparr>
     (new_GameState\<lparr>players := [newPlayer (Num 1) ''Alice'']\<rparr>)
     = (Inr False, new_GameState\<lparr>players := [newPlayer (Num 1) ''Alice'']\<rparr>)"
proof -
  have h0: "mulliganActive mulligan_game" by code_simp
  have h4: "getPlayerById mulligan_game (parseInt ''1'' None) = Some 0" by code_simp
  have h5: "findIndex (\<lambda>quest. seq (q_entityId quest) (parseInt ''7'' None))
      (p_quests (players mulligan_game ! 0)) = None" by code_simp
  have h6: "getPlayerById (new_GameState\<lparr>players := [newPlayer (Num 1) ''Alice'']\<rparr>)
      (parseInt ''1'' None) = Some 0" by code_simp
  have h7: "getOpponentPlayer (new_GameState\<lparr>players := [newPlayer (Num 1) ''Alice'']\<rparr>) 0 = None"
    by code_simp
  note C = soft_miss_aborts [where gs = mulligan_game
      and q = "\<lparr>tg_cardName = ''Quest'', tg_entityId = ''7'', tg_cardId = ''UNG_940'', tg_playerId = ''1'',
      tg_tag = ''QUEST_PROGRESS'', tg_value = ''2''\<rparr>"
      and k = "\<lparr>gt_entity = ''Carol'', gt_tag = ''RESOURCES'', gt_value = ''4''\<rparr>" and now = 5000]
  note D = soft_miss_aborts [where cardsJson = example_cardData
      and gs = "new_GameState\<lparr>players := [newPlayer (Num 1) ''Alice'']\<rparr>"
      and questMap = Map.empty and secretToClass = Map.empty and ?t1.0 = 0 and ?t2.0 = 0
      and z = "\<lparr>zc_entityName = ''Fireball'', zc_entityId = ''7'', zc_cardId = ''CS2_029'', zc_playerId = ''1'',
      zc_fromTeam = None, zc_fromZone = None, zc_toTeam = Some Friendly, zc_toZone = Some ''HAND''\<rparr>"]
  have h1: "cardData example_cardData ''NOPE'' = None" by code_simp
  have h1': "cardData example_cardData ''CS2_029'' \<noteq> None" by code_simp
  have h2: "getPlayerById mulligan_game (parseInt ''3'' None) = None" by code_simp
  have h3: "getPlayerByName mulligan_game ''Carol'' = None" by code_simp
  note A = soft_miss_aborts [where cardsJson = example_cardData and gs = mulligan_game
      and questMap = Map.empty and secretToClass = Map.empty and ?t1.0 = 0 and ?t2.0 = 0
      and z = "\<lparr>zc_entityName = ''Fireball'', zc_entityId = ''7'', zc_cardId = ''NOPE'', zc_playerId = ''1'',
      zc_fromTeam = None, zc_fromZone = None, zc_toTeam = Some Friendly, zc_toZone = Some ''HAND''\<rparr>"
      and m = "\<lparr>mr_name = ''Carol'', mr_cardsLeft = ''27''\<rparr>" and D = 30
      and t = "\<lparr>tc_playerName = ''Carol'', tc_turn = ''1''\<rparr>" and now = 3000
      and q = "\<lparr>tg_cardName = ''Quest'', tg_entityId = ''7'', tg_cardId = ''UNG_940'', tg_playerId = ''3'',
      tg_tag = ''QUEST_PROGRESS'', tg_value = ''2''\<rparr>"
      and o' = "\<lparr>go_playerName = ''Carol'', go_status = ''WON''\<rparr>" and ?n1.0 = 5000 and ?n2.0 = 5000
      and k = "\<lparr>gt_entity = ''Carol'', gt_tag = ''TIMEOUT'', gt_value = ''75''\<rparr>"]
  note B = soft_miss_aborts [where cardsJson = example_cardData and gs = mulligan_game
      and questMap = Map.empty and secretToClass = Map.empty and ?t1.0 = 0 and ?t2.0 = 0
      and z = "\<lparr>zc_entityName = ''Fireball'', zc_entityId = ''7'', zc_cardId = ''CS2_029'', zc_playerId = ''3'',
      zc_fromTeam = None, zc_fromZone = None, zc_toTeam = Some Friendly, zc_toZone = Some ''HAND''\<rparr>"
      and k = "\<lparr>gt_entity = ''Carol'', gt_tag = ''TIMEOUT'', gt_value = ''75''\<rparr>" and now = 5000]
  from A h1 h2 h3 have a: "snd (zone_change example_cardData Map.empty Map.empty 0 0
     \<lparr>zc_entityName = ''Fireball'', zc_entityId = ''7'', zc_cardId = ''NOPE'', zc_playerId = ''1'',
      zc_fromTeam = None, zc_fromZone = None, zc_toTeam = Some Friendly, zc_toZone = Some ''HAND''\<rparr>
     mulligan_game) = mulligan_game"
    and c: "mulligan_result 30 \<lparr>mr_name = ''Carol'', mr_cardsLeft = ''27''\<rparr> mulligan_game
     = (Inr False, mulligan_game)"
    and d: "turn_change 3000 \<lparr>tc_playerName = ''Carol'', tc_turn = ''1''\<rparr> mulligan_game
     = (Inr False, mulligan_game)"
    and e: "snd (tag_change \<lparr>tg_cardName = ''Quest'', tg_entityId = ''7'', tg_cardId = ''UNG_940'', tg_playerId = ''3'',
      tg_tag = ''QUEST_PROGRESS'', tg_value = ''2''\<rparr> mulligan_game) = mulligan_game"
    and f: "gameOverCount (snd (game_over 5000 5000 \<lparr>go_playerName = ''Carol'', go_status = ''WON''\<rparr> mulligan_game))
     = gameOverCount mulligan_game + 1"
    by simp_all
  from B h1' h2 h3 have b: "zone_change example_cardData Map.empty Map.empty 0 0
     \<lparr>zc_entityName = ''Fireball'', zc_entityId = ''7'', zc_cardId = ''CS2_029'', zc_playerId = ''3'',
      zc_fromTeam = None, zc_fromZone = None, zc_toTeam = Some Friendly, zc_toZone = Some ''HAND''\<rparr>
     mulligan_game = (Inr False, mulligan_game)"
    and g: "snd (game_tag_change 5000 \<lparr>gt_entity = ''Carol'', gt_tag = ''TIMEOUT'', gt_value = ''75''\<rparr> mulligan_game)
     = mulligan_game"
    by simp_all
  have h3': "getPlayerByName mulligan_game ''Carol'' = None" by (rule h3)
  from C h3' h4 h5 have i: "snd (game_tag_change 5000 \<lparr>gt_entity = ''Carol'', gt_tag = ''RESOURCES'', gt_value = ''4''\<rparr> mulligan_game)
     = mulligan_game"
    and j: "snd (tag_change \<lparr>tg_cardName = ''Quest'', tg_entityId = ''7'', tg_cardId = ''UNG_940'', tg_playerId = ''1'',
      tg_tag = ''QUEST_PROGRESS'', tg_value = ''2''\<rparr> mulligan_game) = mulligan_game"
    by simp_all
  from D h1' h6 h7 have l: "zone_change example_cardData Map.empty Map.empty 0 0
     \<lparr>zc_entityName = ''Fireball'', zc_entityId = ''7'', zc_cardId = ''CS2_029'', zc_playerId = ''1'',
      zc_fromTeam = None, zc_fromZone = None, zc_toTeam = Some Friendly, zc_toZone = Some ''HAND''\<rparr>
     (new_GameState\<lparr>players := [newPlayer (Num 1) ''Alice'']\<rparr>)
     = (Inr False, new_GameState\<lparr>players := [newPlayer (Num 1) ''Alice'']\<rparr>)"
    by simp
  from h0 a b c d e f g i j l show ?thesis by blast
qed


section \<open>Resolving entities: the merge\<close>

text \<open>
  Claim C8, as amended. \<open>resolveEntity\<close> stores, under the entity id of the incoming
  fact, an entity whose \<open>entityId\<close> is that id and whose every other field is the
  incoming field when the fact has the field (whatever its value, the empty string and the
  sentinel name included) and the field of the entity known before (or the default) when
  the fact has not; a tag of the fact that has a value wins, and a tag the fact does not
  give keeps its known value. The entities stored under other ids are not touched.
\<close>

theorem resolveEntity_merge_fields:
  "\<exists>e. entities (resolveEntity entity gs) (f_entityId entity) = Some e \<and>
      ent_entityId e = f_entityId entity \<and>
      (\<forall>n. f_cardName entity = Some n \<longrightarrow> ent_cardName e = n) \<and>
      (\<forall>c. f_cardId entity = Some c \<longrightarrow> ent_cardId e = Some c) \<and>
      (\<forall>p. f_player entity = Some p \<longrightarrow> ent_player e = p) \<and>
      (\<forall>t k v. f_tags entity = Some t \<and> t k = Some (Some v) \<longrightarrow> ent_tags e k = Some (Some v)) \<and>
      (\<forall>x. entities gs (f_entityId entity) = Some x \<longrightarrow>
         (f_cardName entity = None \<longrightarrow> ent_cardName e = ent_cardName x) \<and>
         (f_cardId entity = None \<longrightarrow> ent_cardId e = ent_cardId x) \<and>
         (f_player entity = None \<longrightarrow> ent_player e = ent_player x) \<and>
         (\<forall>k. (case f_tags entity of None \<Rightarrow> True | Some t \<Rightarrow> t k = None \<or> t k = Some None) \<longrightarrow>
              tag_value (ent_tags e) k = tag_value (ent_tags x) k)) \<and>
      (entities gs (f_entityId entity) = None \<longrightarrow>
         (f_cardName entity = None \<longrightarrow> ent_cardName e = []) \<and>
         (f_cardId entity = None \<longrightarrow> ent_cardId e = None) \<and>
         (f_player entity = None \<longrightarrow> ent_player e = Bottom)) \<and>
      (\<forall>i. i \<noteq> f_entityId entity \<longrightarrow> entities (resolveEntity entity gs) i = entities gs i)"
  by (auto simp: entities_resolveEntity merge_entity_def merge_tags_def tag_value_def
      split: option.splits)

text \<open>
  Claim C8 as stated fails: entity 5 is known as Fireball, and a later fact that carries
  the empty string as its name replaces the known name by the empty one.
\<close>

theorem resolveEntity_overwrites_known_name:
  "map_option ent_cardName (entities
      (resolveEntity \<lparr>f_entityId = Num 5, f_cardId = Some (Num 315), f_cardName = Some ''Fireball'',
                      f_player = None, f_tags = None\<rparr> new_GameState) (Num 5)) = Some ''Fireball'' \<and>
   map_option ent_cardName (entities
      (resolveEntity \<lparr>f_entityId = Num 5, f_cardId = None, f_cardName = Some [],
                      f_player = None, f_tags = None\<rparr>
        (resolveEntity \<lparr>f_entityId = Num 5, f_cardId = Some (Num 315), f_cardName = Some ''Fireball'',
                        f_player = None, f_tags = None\<rparr> new_GameState)) (Num 5)) = Some []"
  by code_simp

text \<open>
  Entity 5 known as Fireball on the top side; a fact without name and side that brings the
  card id 315 keeps the name and the side and stores the card id.
\<close>

theorem resolveEntity_merge_fields_witness:
  "map_option ent_cardName (entities
      (resolveEntity \<lparr>f_entityId = Num 5, f_cardId = Some (Num 315), f_cardName = None,
                      f_player = None, f_tags = Some [''CORRUPT'' \<mapsto> Some ''1'']\<rparr>
        (resolveEntity \<lparr>f_entityId = Num 5, f_cardId = None, f_cardName = Some ''Fireball'',
                        f_player = Some Top, f_tags = None\<rparr> new_GameState)) (Num 5)) = Some ''Fireball'' \<and>
   map_option ent_cardId (entities
      (resolveEntity \<lparr>f_entityId = Num 5, f_cardId = Some (Num 315), f_cardName = None,
                      f_player = None, f_tags = Some [''CORRUPT'' \<mapsto> Some ''1'']\<rparr>
        (resolveEntity \<lparr>f_entityId = Num 5, f_cardId = None, f_cardName = Some ''Fireball'',
                        f_player = Some Top, f_tags = None\<rparr> new_GameState)) (Num 5)) = Some (Some (Num 315)) \<and>
   map_option ent_player (entities
      (resolveEntity \<lparr>f_entityId = Num 5, f_cardId = Some (Num 315), f_cardName = None,
                      f_player = None, f_tags = Some [''CORRUPT'' \<mapsto> Some ''1'']\<rparr>
        (resolveEntity \<lparr>f_entityId = Num 5, f_cardId = None, f_cardName = Some ''Fireball'',
                        f_player = Some Top, f_tags = None\<rparr> new_GameState)) (Num 5)) = Some Top"
proof -
  define gs1 where "gs1 = resolveEntity \<lparr>f_entityId = Num 5, f_cardId = None, f_cardName = Some ''Fireball'',
                        f_player = Some Top, f_tags = None\<rparr> new_GameState"
  define fact where "fact = \<lparr>f_entityId = Num 5, f_cardId = Some (Num 315), f_cardName = None,
                      f_player = None, f_tags = Some [''CORRUPT'' \<mapsto> Some ''1'']\<rparr>"
  have ex: "entities gs1 (Num 5) =
      Some \<lparr>ent_cardId = None, ent_cardName = ''Fireball'', ent_entityId = Num 5, ent_player = Top,
            ent_tags = Map.empty\<rparr>"
    unfolding gs1_def by (simp add: entities_resolveEntity merge_entity_def new_GameState_def reset_def)
  from resolveEntity_merge_fields [of fact gs1] ex
  have "map_option ent_cardName (entities (resolveEntity fact gs1) (Num 5)) = Some ''Fireball'' \<and>
        map_option ent_cardId (entities (resolveEntity fact gs1) (Num 5)) = Some (Some (Num 315)) \<and>
        map_option ent_player (entities (resolveEntity fact gs1) (Num 5)) = Some Top"
    by (auto simp: fact_def)
  then show ?thesis unfolding gs1_def fact_def .
qed

section \<open>Resolving entities: the cards and the match log\<close>

lemma merge_tags_empty: "merge_tags Map.empty m = m"
  by (rule ext) (simp add: merge_tags_def split: option.splits)

lemma merge_tags_idem: "merge_tags (merge_tags d s) s = merge_tags d s"
  by (rule ext) (simp add: merge_tags_def split: option.splits)

lemma merge_entity_idem:
  "merge_entity (Some (merge_entity ex entity)) entity = merge_entity ex entity"
  by (cases "f_tags entity")
    (simp_all add: merge_entity_def Let_def merge_tags_empty merge_tags_idem split: option.splits)

lemma refresh_card_idem:
  "refresh_card ents E (refresh_card ents E c) = refresh_card ents E c"
  by (simp add: refresh_card_def split: option.splits)

lemma patch_props_idem:
  "\<not> isEmpty name \<Longrightarrow>
   patch_props E name cid (patch_props E name cid p) = patch_props E name cid p"
  by (simp add: patch_props_def)

lemma patch_entry_idem:
  "\<not> isEmpty name \<Longrightarrow>
   patch_entry E name cid (patch_entry E name cid entry) = patch_entry E name cid entry"
  by (simp add: patch_entry_def patch_props_idem)

text \<open>Resolving twice with the same fact is resolving once, in every game state.\<close>

lemma resolveEntity_idem: "resolveEntity entity (resolveEntity entity gs) = resolveEntity entity gs"
proof -
  define E where "E = f_entityId entity"
  define e' where "e' = merge_entity (entities gs E) entity"
  define ents where "ents = (entities gs)(E \<mapsto> e')"
  define ps where "ps = map (\<lambda>player. player\<lparr>p_cards := map (refresh_card ents E) (p_cards player)\<rparr>) (players gs)"
  have ps_idem: "map (\<lambda>player. player\<lparr>p_cards := map (refresh_card ents E) (p_cards player)\<rparr>) ps = ps"
    unfolding ps_def by (simp add: refresh_card_idem o_def)
  have m2: "merge_entity (Some e') entity = e'"
    unfolding e'_def by (rule merge_entity_idem)
  have id: "ent_entityId e' = E"
    unfolding e'_def E_def by (simp add: merge_entity_def)
  show ?thesis
  proof (cases "isEmpty (ent_cardName e') \<or> E \<notin> missingEntityIds gs")
    case True
    then have r: "resolveEntity entity gs = gs\<lparr>entities := ents, players := ps\<rparr>"
      unfolding resolveEntity_def Let_def E_def [symmetric] e'_def [symmetric] ents_def [symmetric]
        ps_def id
      by auto
    show ?thesis
      unfolding r
      using True
      unfolding resolveEntity_def Let_def E_def [symmetric]
      by (simp add: ents_def m2 id ps_idem [unfolded ents_def])
  next
    case False
    then have r: "resolveEntity entity gs = gs\<lparr>entities := ents, players := ps,
        matchLog := map (patch_entry E (ent_cardName e') (ent_cardId e')) (matchLog gs)\<rparr>"
      unfolding resolveEntity_def Let_def E_def [symmetric] e'_def [symmetric] ents_def [symmetric]
        ps_def id
      by auto
    from False have ne: "\<not> isEmpty (ent_cardName e')" by simp
    show ?thesis
      unfolding r
      using False
      unfolding resolveEntity_def Let_def E_def [symmetric]
      by (simp add: ents_def m2 id ps_idem [unfolded ents_def] o_def patch_entry_idem [OF ne])
  qed
qed


text \<open>
  \<open>addMatchLogEntry\<close> flags every snapshot it records with an empty or sentinel name, so
  the invariant \<open>flagged\<close> holds in a new game state and is kept by \<open>addMatchLogEntry\<close>
  and by \<open>resolveEntity\<close>.
\<close>

lemma seq_eq: "seq a b \<Longrightarrow> a = b"
  by (cases a; cases b) simp_all

lemma fold_flag_sub:
  "m \<subseteq> fold (\<lambda>t m. if P t then insert (f t) m else m) ts m"
  by (induction ts arbitrary: m) (auto, blast+)

lemma fold_flag_in:
  "t \<in> set ts \<Longrightarrow> P t \<Longrightarrow> f t \<in> fold (\<lambda>t m. if P t then insert (f t) m else m) ts m"
proof (induction ts arbitrary: m)
  case Nil
  then show ?case by simp
next
  case (Cons a ts)
  show ?case
  proof (cases "t = a")
    case True
    with Cons.prems have "f t \<in> (if P a then insert (f a) m else m)" by simp
    with fold_flag_sub [of "if P a then insert (f a) m else m" P f ts] show ?thesis
      by auto
  next
    case False
    with Cons show ?thesis by simp
  qed
qed

lemma flag_entry_sub: "m \<subseteq> flag_entry entry m"
proof -
  have "m \<subseteq> (if isEmpty (props_cardName (entry_source entry))
        then insert (props_entityId (entry_source entry)) m else m)" by auto
  also have "\<dots> \<subseteq> flag_entry entry m"
    unfolding flag_entry_def by (rule fold_flag_sub)
  finally show ?thesis .
qed

lemma flag_entry_source:
  "isEmpty (props_cardName (entry_source entry)) \<Longrightarrow>
   props_entityId (entry_source entry) \<in> flag_entry entry m"
  using fold_flag_sub [of "insert (props_entityId (entry_source entry)) m"
      "\<lambda>t. isEmpty (props_cardName t)" props_entityId "entry_targets entry"]
  by (auto simp: flag_entry_def)

lemma flag_entry_target:
  "t \<in> set (entry_targets entry) \<Longrightarrow> isEmpty (props_cardName t) \<Longrightarrow>
   props_entityId t \<in> flag_entry entry m"
  unfolding flag_entry_def by (rule fold_flag_in)

lemma fold_flag_entry_sub: "m \<subseteq> fold flag_entry entries m"
proof (induction entries arbitrary: m)
  case Nil
  then show ?case by simp
next
  case (Cons e es)
  have "m \<subseteq> flag_entry e m" by (rule flag_entry_sub)
  also have "\<dots> \<subseteq> fold flag_entry es (flag_entry e m)" by (rule Cons.IH)
  finally show ?case by simp
qed

lemma fold_flag_entry_covers:
  "entry \<in> set entries \<Longrightarrow>
   (isEmpty (props_cardName (entry_source entry)) \<longrightarrow>
      props_entityId (entry_source entry) \<in> fold flag_entry entries m) \<and>
   (\<forall>t\<in>set (entry_targets entry). isEmpty (props_cardName t) \<longrightarrow>
      props_entityId t \<in> fold flag_entry entries m)"
proof (induction entries arbitrary: m)
  case Nil
  then show ?case by simp
next
  case (Cons e es)
  show ?case
  proof (cases "entry = e")
    case True
    have sub: "flag_entry e m \<subseteq> fold flag_entry (e # es) m"
      using fold_flag_entry_sub [of "flag_entry e m" es] by simp
    from sub flag_entry_source [of e m] flag_entry_target [of _ e m] True
    show ?thesis by blast
  next
    case False
    with Cons.prems have "entry \<in> set es" by simp
    from Cons.IH [OF this, of "flag_entry e m"] show ?thesis by simp
  qed
qed

lemma flagged_iff:
  "flagged gs \<longleftrightarrow>
     (\<forall>entry\<in>set (matchLog gs).
        (isEmpty (props_cardName (entry_source entry)) \<longrightarrow>
           props_entityId (entry_source entry) \<in> missingEntityIds gs) \<and>
        (\<forall>t\<in>set (entry_targets entry). isEmpty (props_cardName t) \<longrightarrow>
           props_entityId t \<in> missingEntityIds gs))"
  by (simp add: flagged_def list_all_iff)

lemma flagged_new_GameState: "flagged new_GameState"
  by (simp add: flagged_def new_GameState_def reset_def)

lemma flagged_reset: "flagged (reset gs)"
  by (simp add: flagged_def reset_def)

lemma flagged_addMatchLogEntry:
  assumes "flagged gs"
  shows "flagged (addMatchLogEntry entries gs)"
proof -
  have sub: "missingEntityIds gs \<subseteq> fold flag_entry entries (missingEntityIds gs)"
    by (rule fold_flag_entry_sub)
  show ?thesis
    unfolding flagged_iff
  proof
    fix entry
    assume "entry \<in> set (matchLog (addMatchLogEntry entries gs))"
    then consider "entry \<in> set (matchLog gs)" | "entry \<in> set entries"
      by (auto simp: addMatchLogEntry_def)
    then show "(isEmpty (props_cardName (entry_source entry)) \<longrightarrow>
           props_entityId (entry_source entry) \<in> missingEntityIds (addMatchLogEntry entries gs)) \<and>
        (\<forall>t\<in>set (entry_targets entry). isEmpty (props_cardName t) \<longrightarrow>
           props_entityId t \<in> missingEntityIds (addMatchLogEntry entries gs))"
    proof cases
      case 1
      with assms sub show ?thesis
        unfolding flagged_iff by (auto simp: addMatchLogEntry_def)
    next
      case 2
      from fold_flag_entry_covers [OF this, of "missingEntityIds gs"] show ?thesis
        by (simp add: addMatchLogEntry_def)
    qed
  qed
qed

lemma patch_props_unflagged:
  "props_entityId p \<in> M \<or> \<not> isEmpty (props_cardName p) \<Longrightarrow> E \<notin> M \<Longrightarrow>
   patch_props E name cid p = p"
  by (auto simp: patch_props_def dest: seq_eq)

lemma matchLog_resolveEntity:
  assumes "flagged gs" and "\<not> isEmpty (ent_cardName (merge_entity (entities gs (f_entityId entity)) entity))"
  shows "matchLog (resolveEntity entity gs) =
     map (patch_entry (f_entityId entity)
            (ent_cardName (merge_entity (entities gs (f_entityId entity)) entity))
            (ent_cardId (merge_entity (entities gs (f_entityId entity)) entity))) (matchLog gs)"
proof (cases "f_entityId entity \<in> missingEntityIds gs")
  case True
  with assms(2) show ?thesis
    by (simp add: resolveEntity_def Let_def merge_entity_def)
next
  case False
  have "patch_entry (f_entityId entity) n c entry = entry" if "entry \<in> set (matchLog gs)" for entry n c
  proof -
    from assms(1) that
    have s: "props_entityId (entry_source entry) \<in> missingEntityIds gs \<or>
             \<not> isEmpty (props_cardName (entry_source entry))"
      and t: "\<forall>t\<in>set (entry_targets entry). props_entityId t \<in> missingEntityIds gs \<or>
             \<not> isEmpty (props_cardName t)"
      unfolding flagged_iff by auto
    have "map (patch_props (f_entityId entity) n c) (entry_targets entry) = entry_targets entry"
    proof (rule map_idI)
      fix q assume "q \<in> set (entry_targets entry)"
      with t have "props_entityId q \<in> missingEntityIds gs \<or> \<not> isEmpty (props_cardName q)"
        by blast
      from patch_props_unflagged [OF this False]
      show "patch_props (f_entityId entity) n c q = q" .
    qed
    with patch_props_unflagged [OF s False] show ?thesis
      by (simp add: patch_entry_def)
  qed
  then have "map (patch_entry (f_entityId entity) n c) (matchLog gs) = matchLog gs" for n c
    by (simp add: map_idI)
  with False show ?thesis
    by (simp add: resolveEntity_def Let_def merge_entity_def)
qed

lemma players_resolveEntity:
  "players (resolveEntity entity gs) =
     map (\<lambda>player. player\<lparr>p_cards :=
            map (refresh_card ((entities gs)(f_entityId entity \<mapsto>
                   merge_entity (entities gs (f_entityId entity)) entity)) (f_entityId entity))
              (p_cards player)\<rparr>) (players gs)"
  by (simp add: resolveEntity_def Let_def)

lemma flagged_resolveEntity:
  assumes "flagged gs"
  shows "flagged (resolveEntity entity gs)"
proof -
  have m: "missingEntityIds (resolveEntity entity gs) = missingEntityIds gs"
    by (simp add: resolveEntity_def Let_def)
  have "matchLog (resolveEntity entity gs) = matchLog gs \<or>
        (\<exists>n c. \<not> isEmpty n \<and> f_entityId entity \<in> missingEntityIds gs \<and>
           matchLog (resolveEntity entity gs) = map (patch_entry (f_entityId entity) n c) (matchLog gs))"
    by (auto simp: resolveEntity_def Let_def merge_entity_def)
  then show ?thesis
  proof
    assume "matchLog (resolveEntity entity gs) = matchLog gs"
    with assms m show ?thesis by (simp add: flagged_def)
  next
    assume "\<exists>n c. \<not> isEmpty n \<and> f_entityId entity \<in> missingEntityIds gs \<and>
           matchLog (resolveEntity entity gs) = map (patch_entry (f_entityId entity) n c) (matchLog gs)"
    then obtain n c where n: "\<not> isEmpty n" and E: "f_entityId entity \<in> missingEntityIds gs"
      and l: "matchLog (resolveEntity entity gs) = map (patch_entry (f_entityId entity) n c) (matchLog gs)"
      by blast
    have p: "isEmpty (props_cardName (patch_props (f_entityId entity) n c q)) \<longrightarrow>
             props_entityId (patch_props (f_entityId entity) n c q) \<in> missingEntityIds gs"
      if "isEmpty (props_cardName q) \<longrightarrow> props_entityId q \<in> missingEntityIds gs" for q
      using that n E by (simp add: patch_props_def)
    from assms show ?thesis
      unfolding flagged_iff m l
      by (auto simp: patch_entry_def p)
  qed
qed

text \<open>
  Claim C2, as amended. In a game state whose match log was recorded through
  \<open>addMatchLogEntry\<close> (the invariant \<open>flagged\<close>), resolving entity \<open>E\<close> with a fact that
  carries a name that is neither empty nor the sentinel stores the merged entity \<open>e\<close> and
  overwrites, in every entry of the match log, the source and each target that carries an
  empty or sentinel name and the id \<open>E\<close> with the id, the name and the card id of \<open>e\<close>,
  leaving every other snapshot as it was; every card of every player with the id \<open>E\<close>
  gets the derived tags of \<open>e\<close> when \<open>identifySpecialTags\<close> returns some, and keeps the
  tags it had when it returns none; resolving again with the same fact changes nothing.
\<close>

theorem resolveEntity_backfills:
  assumes "flagged gs" and "f_cardName entity = Some name" and "\<not> isEmpty name"
  shows "\<exists>e. entities (resolveEntity entity gs) (f_entityId entity) = Some e \<and>
     ent_entityId e = f_entityId entity \<and> ent_cardName e = name \<and>
     length (matchLog (resolveEntity entity gs)) = length (matchLog gs) \<and>
     (\<forall>i<length (matchLog gs).
        entry_source (matchLog (resolveEntity entity gs) ! i) =
          (if isEmpty (props_cardName (entry_source (matchLog gs ! i))) \<and>
              seq (props_entityId (entry_source (matchLog gs ! i))) (f_entityId entity)
           then (entry_source (matchLog gs ! i))
                  \<lparr>props_entityId := f_entityId entity, props_cardName := name,
                   props_cardId := ent_cardId e\<rparr>
           else entry_source (matchLog gs ! i)) \<and>
        entry_targets (matchLog (resolveEntity entity gs) ! i) =
          map (\<lambda>t. if isEmpty (props_cardName t) \<and> seq (props_entityId t) (f_entityId entity)
                    then t\<lparr>props_entityId := f_entityId entity, props_cardName := name,
                           props_cardId := ent_cardId e\<rparr>
                    else t)
            (entry_targets (matchLog gs ! i))) \<and>
     length (players (resolveEntity entity gs)) = length (players gs) \<and>
     (\<forall>p<length (players gs).
        p_cards (players (resolveEntity entity gs) ! p) =
          map (\<lambda>c. if seq (c_entityId c) (f_entityId entity)
                    then (case identifySpecialTags (Some e) of
                            Some tags \<Rightarrow> c\<lparr>c_tags := tags\<rparr>
                          | None \<Rightarrow> c)
                    else c)
            (p_cards (players gs ! p))) \<and>
     resolveEntity entity (resolveEntity entity gs) = resolveEntity entity gs"
proof -
  define e where "e = merge_entity (entities gs (f_entityId entity)) entity"
  have n: "ent_cardName e = name" and i: "ent_entityId e = f_entityId entity"
    using assms(2) by (simp_all add: e_def merge_entity_def)
  have a: "entities (resolveEntity entity gs) (f_entityId entity) = Some e"
    by (simp add: entities_resolveEntity e_def)
  have l: "matchLog (resolveEntity entity gs) =
      map (patch_entry (f_entityId entity) name (ent_cardId e)) (matchLog gs)"
    using matchLog_resolveEntity [OF assms(1), of entity] assms(3) n
    by (simp add: e_def)
  have rc: "refresh_card ((entities gs)(f_entityId entity \<mapsto> e)) (f_entityId entity) =
      (\<lambda>c. if seq (c_entityId c) (f_entityId entity)
                    then (case identifySpecialTags (Some e) of
                            Some tags \<Rightarrow> c\<lparr>c_tags := tags\<rparr>
                          | None \<Rightarrow> c)
                    else c)"
    by (rule ext) (auto simp: refresh_card_def dest: seq_eq)
  have p: "players (resolveEntity entity gs) =
     map (\<lambda>player. player\<lparr>p_cards :=
            map (\<lambda>c. if seq (c_entityId c) (f_entityId entity)
                    then (case identifySpecialTags (Some e) of
                            Some tags \<Rightarrow> c\<lparr>c_tags := tags\<rparr>
                          | None \<Rightarrow> c)
                    else c) (p_cards player)\<rparr>) (players gs)"
    unfolding players_resolveEntity e_def [symmetric] rc ..
  have "ent_entityId e = f_entityId entity \<and> ent_cardName e = name \<and>
     length (matchLog (resolveEntity entity gs)) = length (matchLog gs) \<and>
     (\<forall>i<length (matchLog gs).
        entry_source (matchLog (resolveEntity entity gs) ! i) =
          (if isEmpty (props_cardName (entry_source (matchLog gs ! i))) \<and>
              seq (props_entityId (entry_source (matchLog gs ! i))) (f_entityId entity)
           then (entry_source (matchLog gs ! i))
                  \<lparr>props_entityId := f_entityId entity, props_cardName := name,
                   props_cardId := ent_cardId e\<rparr>
           else entry_source (matchLog gs ! i)) \<and>
        entry_targets (matchLog (resolveEntity entity gs) ! i) =
          map (\<lambda>t. if isEmpty (props_cardName t) \<and> seq (props_entityId t) (f_entityId entity)
                    then t\<lparr>props_entityId := f_entityId entity, props_cardName := name,
                           props_cardId := ent_cardId e\<rparr>
                    else t)
            (entry_targets (matchLog gs ! i))) \<and>
     length (players (resolveEntity entity gs)) = length (players gs) \<and>
     (\<forall>p<length (players gs).
        p_cards (players (resolveEntity entity gs) ! p) =
          map (\<lambda>c. if seq (c_entityId c) (f_entityId entity)
                    then (case identifySpecialTags (Some e) of
                            Some tags \<Rightarrow> c\<lparr>c_tags := tags\<rparr>
                          | None \<Rightarrow> c)
                    else c)
            (p_cards (players gs ! p)))"
    unfolding l p using n i
    by (simp add: patch_entry_def patch_props_def [abs_def])
  with a resolveEntity_idem [of entity gs] show ?thesis by blast
qed


text \<open>
  In the example with the unresolved entity 7: the source and the first target get the
  name Fireball and the card id 315, the known target stays, the card of Alice gets the
  tag \<open>can-corrupt\<close>, and a second call changes nothing.
\<close>

theorem resolveEntity_backfills_witness:
  "map (\<lambda>entry. (props_cardName (entry_source entry), props_cardId (entry_source entry),
                  map props_cardName (entry_targets entry),
                  map props_cardId (entry_targets entry)))
     (matchLog (resolveEntity
        \<lparr>f_entityId = Num 7, f_cardId = Some (Num 315), f_cardName = Some ''Fireball'',
         f_player = None, f_tags = Some [''CORRUPT'' \<mapsto> Some ''1'']\<rparr> example_unresolved))
     = [(''Fireball'', Some (Num 315), [''Fireball'', ''Wisp''], [Some (Num 315), Some (Num 1004)])] \<and>
   map (\<lambda>player. map c_tags (p_cards player))
     (players (resolveEntity
        \<lparr>f_entityId = Num 7, f_cardId = Some (Num 315), f_cardName = Some ''Fireball'',
         f_player = None, f_tags = Some [''CORRUPT'' \<mapsto> Some ''1'']\<rparr> example_unresolved))
     = [[[CanCorrupt]], []] \<and>
   resolveEntity
     \<lparr>f_entityId = Num 7, f_cardId = Some (Num 315), f_cardName = Some ''Fireball'',
      f_player = None, f_tags = Some [''CORRUPT'' \<mapsto> Some ''1'']\<rparr>
     (resolveEntity
        \<lparr>f_entityId = Num 7, f_cardId = Some (Num 315), f_cardName = Some ''Fireball'',
         f_player = None, f_tags = Some [''CORRUPT'' \<mapsto> Some ''1'']\<rparr> example_unresolved)
   = resolveEntity
       \<lparr>f_entityId = Num 7, f_cardId = Some (Num 315), f_cardName = Some ''Fireball'',
        f_player = None, f_tags = Some [''CORRUPT'' \<mapsto> Some ''1'']\<rparr> example_unresolved"
proof -
  have h1: "flagged example_unresolved" by code_simp
  have h3: "\<not> isEmpty ''Fireball''" by code_simp
  have a: "map (\<lambda>entry. (props_cardName (entry_source entry), props_cardId (entry_source entry),
                  map props_cardName (entry_targets entry),
                  map props_cardId (entry_targets entry)))
     (matchLog (resolveEntity
        \<lparr>f_entityId = Num 7, f_cardId = Some (Num 315), f_cardName = Some ''Fireball'',
         f_player = None, f_tags = Some [''CORRUPT'' \<mapsto> Some ''1'']\<rparr> example_unresolved))
     = [(''Fireball'', Some (Num 315), [''Fireball'', ''Wisp''], [Some (Num 315), Some (Num 1004)])]"
    by code_simp
  have b: "map (\<lambda>player. map c_tags (p_cards player))
     (players (resolveEntity
        \<lparr>f_entityId = Num 7, f_cardId = Some (Num 315), f_cardName = Some ''Fireball'',
         f_player = None, f_tags = Some [''CORRUPT'' \<mapsto> Some ''1'']\<rparr> example_unresolved))
     = [[[CanCorrupt]], []]"
    by code_simp
  have h2: "f_cardName \<lparr>f_entityId = Num 7, f_cardId = Some (Num 315), f_cardName = Some ''Fireball'',
         f_player = None, f_tags = Some [''CORRUPT'' \<mapsto> Some ''1'']\<rparr> = Some ''Fireball''"
    by simp
  from resolveEntity_backfills [OF h1 h2 h3]
  have c: "resolveEntity
     \<lparr>f_entityId = Num 7, f_cardId = Some (Num 315), f_cardName = Some ''Fireball'',
      f_player = None, f_tags = Some [''CORRUPT'' \<mapsto> Some ''1'']\<rparr>
     (resolveEntity
        \<lparr>f_entityId = Num 7, f_cardId = Some (Num 315), f_cardName = Some ''Fireball'',
         f_player = None, f_tags = Some [''CORRUPT'' \<mapsto> Some ''1'']\<rparr> example_unresolved)
   = resolveEntity
       \<lparr>f_entityId = Num 7, f_cardId = Some (Num 315), f_cardName = Some ''Fireball'',
        f_player = None, f_tags = Some [''CORRUPT'' \<mapsto> Some ''1'']\<rparr> example_unresolved"
    by blast
  from a b c show ?thesis by (intro conjI)
qed

text \<open>
  Claim C2 as stated fails: the card of entity 7 has the tag \<open>can-corrupt\<close> from an earlier
  fact (which had no name, so the log still refers to entity 7 by the empty name); the
  fact that names the entity and sets \<open>CORRUPT\<close> to 0 leaves the merged entity with no
  derived tag, and the card keeps the tag \<open>can-corrupt\<close>.
\<close>

theorem resolveEntity_keeps_stale_tags:
  "map (\<lambda>player. map c_tags (p_cards player))
     (players (resolveEntity
        \<lparr>f_entityId = Num 7, f_cardId = None, f_cardName = None,
         f_player = None, f_tags = Some [''CORRUPT'' \<mapsto> Some ''1'']\<rparr> example_unresolved))
     = [[[CanCorrupt]], []] \<and>
   map (\<lambda>entry. props_cardName (entry_source entry))
     (matchLog (resolveEntity
        \<lparr>f_entityId = Num 7, f_cardId = None, f_cardName = None,
         f_player = None, f_tags = Some [''CORRUPT'' \<mapsto> Some ''1'']\<rparr> example_unresolved))
     = [[]] \<and>
   identifySpecialTags (entities (resolveEntity
        \<lparr>f_entityId = Num 7, f_cardId = Some (Num 315), f_cardName = Some ''Fireball'',
         f_player = None, f_tags = Some [''CORRUPT'' \<mapsto> Some ''0'']\<rparr>
        (resolveEntity
           \<lparr>f_entityId = Num 7, f_cardId = None, f_cardName = None,
            f_player = None, f_tags = Some [''CORRUPT'' \<mapsto> Some ''1'']\<rparr> example_unresolved))
      (Num 7)) = None \<and>
   map (\<lambda>player. map c_tags (p_cards player))
     (players (resolveEntity
        \<lparr>f_entityId = Num 7, f_cardId = Some (Num 315), f_cardName = Some ''Fireball'',
         f_player = None, f_tags = Some [''CORRUPT'' \<mapsto> Some ''0'']\<rparr>
        (resolveEntity
           \<lparr>f_entityId = Num 7, f_cardId = None, f_cardName = None,
            f_player = None, f_tags = Some [''CORRUPT'' \<mapsto> Some ''1'']\<rparr> example_unresolved)))
     = [[[CanCorrupt]], []]"
  by code_simp


section \<open>Zone changes and the card collections\<close>

lemma seq_Num_iff: "seq x (Num e) \<longleftrightarrow> x = Num e"
  by (cases x) auto

text \<open>
  \<open>putCards\<close> updates a card in place or appends one: it removes no card, keeps the
  entity ids of a list distinct, leaves a card of the entity in the list when it is given a
  state and the spawn flag, and gives the state to the card of the entity.
\<close>

lemma putCards_ids:
  "map c_entityId (putCards cs a) = map c_entityId cs \<or>
   (findIndex (\<lambda>c. seq (c_entityId c) (put_entityId a)) cs = None \<and>
    map c_entityId (putCards cs a) = map c_entityId cs @ [put_entityId a])"
proof (cases "findIndex (\<lambda>c. seq (c_entityId c) (put_entityId a)) cs")
  case None
  then show ?thesis
    by (simp add: putCards_def split: option.splits)
next
  case (Some i)
  then have "map c_entityId (putCards cs a) = (map c_entityId cs)[i := c_entityId (cs ! i)]"
    by (simp add: putCards_def Let_def map_update split: option.splits)
  also have "\<dots> = map c_entityId cs"
    by (cases "i < length cs") (simp_all add: list_update_same_conv list_update_beyond)
  finally show ?thesis by simp
qed

lemma putCards_ids_subset:
  "set (map c_entityId cs) \<subseteq> set (map c_entityId (putCards cs a))"
proof -
  from putCards_ids [of cs a]
  have "set (map c_entityId (putCards cs a)) = set (map c_entityId cs) \<or>
        set (map c_entityId (putCards cs a)) = set (map c_entityId cs @ [put_entityId a])"
    by metis
  then show ?thesis by auto
qed

lemma putCards_distinct:
  assumes "distinct (map c_entityId cs)" and "put_entityId a \<noteq> NaN"
  shows "distinct (map c_entityId (putCards cs a))"
proof -
  from assms(2) have r: "seq (put_entityId a) (put_entityId a)"
    by (cases "put_entityId a") simp_all
  from putCards_ids [of cs a] show ?thesis
  proof
    assume "map c_entityId (putCards cs a) = map c_entityId cs"
    with assms(1) show ?thesis by simp
  next
    assume h: "findIndex (\<lambda>c. seq (c_entityId c) (put_entityId a)) cs = None \<and>
      map c_entityId (putCards cs a) = map c_entityId cs @ [put_entityId a]"
    then have "\<forall>c\<in>set cs. \<not> seq (c_entityId c) (put_entityId a)"
      by (simp add: findIndex_None_iff)
    with r have "\<forall>c\<in>set cs. c_entityId c \<noteq> put_entityId a"
      by metis
    with h assms(1) show ?thesis by auto
  qed
qed

lemma putCards_present:
  assumes "put_state a = Some st" and "put_isSpawnedCard a = Some b" and "put_entityId a = Num e"
  shows "\<exists>c\<in>set (putCards cs a). c_entityId c = Num e \<and> c_state c = st"
proof (cases "findIndex (\<lambda>c. seq (c_entityId c) (put_entityId a)) cs")
  case None
  with assms show ?thesis by (simp add: putCards_def)
next
  case (Some i)
  from findIndex_SomeD [OF Some] have i: "i < length cs" and s: "c_entityId (cs ! i) = Num e"
    by (simp_all add: assms(3) seq_Num_iff)
  define c' where "c' = putCards cs a ! i"
  from Some i s assms(1) have "c_entityId c' = Num e \<and> c_state c' = st"
    by (simp add: c'_def putCards_def Let_def)
  moreover from Some i have "c' \<in> set (putCards cs a)"
    by (simp add: c'_def putCards_def Let_def set_update_memI)
  ultimately show ?thesis by blast
qed

lemma putCards_state:
  assumes "put_state a = Some st" and "put_entityId a = Num e" and "distinct (map c_entityId cs)"
    and "c \<in> set (putCards cs a)" and "c_entityId c = Num e"
  shows "c_state c = st"
proof (cases "findIndex (\<lambda>c. seq (c_entityId c) (put_entityId a)) cs")
  case None
  then have no: "\<forall>c\<in>set cs. c_entityId c \<noteq> Num e"
    by (simp add: findIndex_None_iff assms(2) seq_Num_iff)
  from None assms(4) have "c \<in> set cs \<or> c_state c = st"
    by (auto simp: putCards_def assms(1) split: option.splits)
  with no assms(5) show ?thesis by auto
next
  case (Some i)
  from findIndex_SomeD [OF Some] have i: "i < length cs" and s: "c_entityId (cs ! i) = Num e"
    by (simp_all add: assms(2) seq_Num_iff)
  from Some assms(4) obtain k where k: "k < length cs" "c = putCards cs a ! k"
    by (auto simp: putCards_def Let_def in_set_conv_nth)
  have "k = i"
  proof (rule ccontr)
    assume "k \<noteq> i"
    with Some k have "c = cs ! k" by (simp add: putCards_def Let_def)
    with assms(5) s have "map c_entityId cs ! k = map c_entityId cs ! i"
      using k(1) i by simp
    moreover have "k < length (map c_entityId cs)" "i < length (map c_entityId cs)"
      using k(1) i by simp_all
    ultimately have "k = i"
      using assms(3) nth_eq_iff_index_eq by blast
    with \<open>k \<noteq> i\<close> show False by simp
  qed
  with Some k i assms(1) show ?thesis by (simp add: putCards_def Let_def)
qed


lemma p_cards_leave_zone:
  "p_cards (leave_zone qm sc cid cn E dbf fz p) =
     (if fz = Some Zone_Deck \<or> fz = Some Zone_Hand
      then putCards (p_cards p)
             \<lparr>put_entityId = E, put_cardId = dbf, put_cardName = Some cn,
              put_isSpawnedCard = None, put_state = Some OTHERS\<rparr>
      else p_cards p)"
  by (simp add: leave_zone_def Let_def Zone_Deck_def Zone_Hand_def Zone_Secret_def)

lemma p_cards_enter_zone:
  "p_cards (enter_zone qm sc t1 t2 cid cn E dbf mull tz p) =
     (if tz = Some Zone_Deck \<or> tz = Some Zone_Hand
      then putCards (p_cards p)
             \<lparr>put_entityId = E, put_cardId = dbf, put_cardName = Some cn,
              put_isSpawnedCard = Some (\<not> mull),
              put_state = Some (if tz = Some Zone_Deck then DECK else HAND)\<rparr>
      else p_cards p)"
  by (simp add: enter_zone_def Let_def Zone_Deck_def Zone_Hand_def Zone_Secret_def
      split: option.splits)

lemma p_position_leave_zone: "p_position (leave_zone qm sc cid cn E dbf fz p) = p_position p"
  by (simp add: leave_zone_def Let_def)

lemma p_position_enter_zone:
  "p_position (enter_zone qm sc t1 t2 cid cn E dbf mull tz p) = p_position p"
  by (simp add: enter_zone_def Let_def split: option.splits)

lemma map_update_player:
  "(\<And>p. h (f p) = h p) \<Longrightarrow> map h (players (update_player i f gs)) = map h (players gs)"
  by (simp add: map_update map_update_same)

lemma map_p_cards_assign_positions:
  "map p_cards (players (assign_positions toTeam i j gs)) = map p_cards (players gs)"
  by (simp add: assign_positions_def Let_def map_update_player del: players_update_player)


text \<open>A property of the card lists that \<open>putCards\<close> keeps is kept by a zone change.\<close>

lemma update_player_keeps:
  assumes "length (players s) = n \<and> (\<forall>i<n. Q i (p_cards (players s ! i)))"
    and "\<And>i p. Q i (p_cards p) \<Longrightarrow> Q i (p_cards (f p))"
  shows "length (players (update_player k f s)) = n \<and>
         (\<forall>i<n. Q i (p_cards (players (update_player k f s) ! i)))"
proof (intro conjI allI impI)
  from assms(1) show "length (players (update_player k f s)) = n" by simp
next
  fix i assume "i < n"
  with assms(1) have i: "i < length (players s)" and q: "Q i (p_cards (players s ! i))"
    by simp_all
  show "Q i (p_cards (players (update_player k f s) ! i))"
  proof (cases "i = k")
    case True
    with i assms(2) [OF q] show ?thesis by simp
  next
    case False
    with q show ?thesis by simp
  qed
qed

lemma assign_positions_keeps:
  assumes "length (players s) = n \<and> (\<forall>i<n. Q i (p_cards (players s ! i)))"
  shows "length (players (assign_positions toTeam a b s)) = n \<and>
         (\<forall>i<n. Q i (p_cards (players (assign_positions toTeam a b s) ! i)))"
proof -
  have m: "map p_cards (players (assign_positions toTeam a b s)) = map p_cards (players s)"
    by (rule map_p_cards_assign_positions)
  then have l: "length (players (assign_positions toTeam a b s)) = length (players s)"
    using length_map by metis
  have "p_cards (players (assign_positions toTeam a b s) ! i) = p_cards (players s ! i)"
    if "i < n" for i
    using m l assms that by (metis nth_map)
  with l assms show ?thesis by simp
qed

lemma zone_change_keeps:
  assumes cl: "\<And>i cs a. Q i cs \<Longrightarrow> put_entityId a = parseInt (zc_entityId g) None \<Longrightarrow>
                 Q i (putCards cs a)"
    and inv: "length (players gs) = n \<and> (\<forall>i<n. Q i (p_cards (players gs ! i)))"
  shows "length (players (snd (zone_change cd qm sc t1 t2 g gs))) = n \<and>
         (\<forall>i<n. Q i (p_cards (players (snd (zone_change cd qm sc t1 t2 g gs)) ! i)))"
proof -
  define E where "E = parseInt (zc_entityId g) None"
  have lv: "Q i (p_cards (leave_zone qm sc cid cn E dbf fz p))" if "Q i (p_cards p)"
    for i p cid cn dbf fz
    using that cl [of i "p_cards p"] by (simp add: p_cards_leave_zone E_def)
  have en: "Q i (p_cards (enter_zone qm sc t1 t2 cid cn E dbf mull tz p))" if "Q i (p_cards p)"
    for i p cid cn dbf mull tz
    using that cl [of i "p_cards p"] by (simp add: p_cards_enter_zone E_def)
  show ?thesis
  proof (cases "cardData cd (zc_cardId g)")
    case None
    with inv show ?thesis by (simp add: zone_change_def Let_def)
  next
    case raw: (Some raw)
    show ?thesis
    proof (cases "getPlayerById gs (parseInt (zc_playerId g) None)")
      case None
      with inv raw show ?thesis by (simp add: zone_change_def Let_def)
    next
      case pl: (Some pl)
      show ?thesis
      proof (cases "getOpponentPlayer gs pl")
        case None
        with inv raw pl show ?thesis by (simp add: zone_change_def Let_def)
      next
        case op: (Some op)
        define gs1 where "gs1 = (if mulliganActive gs \<and>
              (zc_toZone g = Some Zone_Hand \<or> zc_toZone g = Some Zone_Deck)
            then assign_positions (zc_toTeam g) pl op gs else gs)"
        define gs2 where "gs2 = (case getPlayerByTeam gs1 (zc_fromTeam g) of
              Some fromPlayer \<Rightarrow>
                update_player fromPlayer
                  (leave_zone qm sc (zc_cardId g) (zc_entityName g) E (dbfId raw) (zc_fromZone g)) gs1
            | None \<Rightarrow> gs1)"
        define gs3 where "gs3 = (case getPlayerByTeam gs2 (zc_toTeam g) of
              Some toPlayer \<Rightarrow>
                update_player toPlayer
                  (enter_zone qm sc t1 t2 (zc_cardId g) (zc_entityName g) E (dbfId raw)
                     (mulliganActive gs2) (zc_toZone g)) gs2
            | None \<Rightarrow> gs2)"
        have r: "snd (zone_change cd qm sc t1 t2 g gs) = gs3"
          unfolding zone_change_def Let_def gs3_def gs2_def gs1_def E_def
          by (simp add: raw pl op)
        have i1: "length (players gs1) = n \<and> (\<forall>i<n. Q i (p_cards (players gs1 ! i)))"
          unfolding gs1_def
          using inv assign_positions_keeps [where Q = Q and s = gs and n = n] by simp
        have i2: "length (players gs2) = n \<and> (\<forall>i<n. Q i (p_cards (players gs2 ! i)))"
          unfolding gs2_def
          using i1 update_player_keeps [where Q = Q and s = gs1 and n = n] lv
          by (simp split: option.splits del: players_update_player)
        have i3: "length (players gs3) = n \<and> (\<forall>i<n. Q i (p_cards (players gs3 ! i)))"
          unfolding gs3_def
          using i2 update_player_keeps [where Q = Q and s = gs2 and n = n] en
          by (simp split: option.splits del: players_update_player)
        from i3 r show ?thesis by simp
      qed
    qed
  qed
qed


lemma zone_changes_keeps:
  assumes cl: "\<And>i cs a. Q i cs \<Longrightarrow> put_entityId a \<noteq> NaN \<Longrightarrow> Q i (putCards cs a)"
    and ids: "\<forall>f\<in>set fs. parseInt (zc_entityId (snd (snd f))) None \<noteq> NaN"
    and inv: "length (players gs) = n \<and> (\<forall>i<n. Q i (p_cards (players gs ! i)))"
  shows "length (players (zone_changes cd qm sc fs gs)) = n \<and>
         (\<forall>i<n. Q i (p_cards (players (zone_changes cd qm sc fs gs) ! i)))"
  using ids inv
proof (induction fs arbitrary: gs)
  case Nil
  then show ?case by simp
next
  case (Cons f fs)
  from Cons.prems(1) have ne: "parseInt (zc_entityId (snd (snd f))) None \<noteq> NaN" by simp
  have "length (players (snd (zone_change cd qm sc (fst f) (fst (snd f)) (snd (snd f)) gs))) = n \<and>
        (\<forall>i<n. Q i (p_cards (players (snd (zone_change cd qm sc (fst f) (fst (snd f)) (snd (snd f)) gs)) ! i)))"
  proof (rule zone_change_keeps [where Q = Q])
    fix i cs and a :: PutArgs
    assume "Q i cs" and "put_entityId a = parseInt (zc_entityId (snd (snd f))) None"
    with ne show "Q i (putCards cs a)" by (simp add: cl)
  next
    from Cons.prems(2) show "length (players gs) = n \<and> (\<forall>i<n. Q i (p_cards (players gs ! i)))" .
  qed
  with Cons.IH [of "snd (zone_change cd qm sc (fst f) (fst (snd f)) (snd (snd f)) gs)"] Cons.prems(1)
  show ?case by simp
qed

lemma findIndex_map: "findIndex P (map f xs) = findIndex (\<lambda>x. P (f x)) xs"
  by (induction xs) simp_all

lemma getPlayerByTeam_positions:
  assumes "map p_position (players s) = map p_position (players s')"
  shows "getPlayerByTeam s team = getPlayerByTeam s' team"
proof -
  have "getPlayerByPosition s pos = findIndex (\<lambda>x. x = pos) (map p_position (players s))" for pos s
    by (simp add: getPlayerByPosition_def findIndex_map)
  with assms have "getPlayerByPosition s pos = getPlayerByPosition s' pos" for pos
    by simp
  then show ?thesis
    by (simp add: getPlayerByTeam_def split: option.splits Team.splits)
qed

lemma getPlayerByTeam_less:
  "getPlayerByTeam s team = Some j \<Longrightarrow> j < length (players s)"
  using findIndex_SomeD
  by (fastforce simp: getPlayerByTeam_def getPlayerByPosition_def split: option.splits Team.splits)

text \<open>
  The card lists after a zone change that the handler applies. The list of the player on
  the destination side (the sides are those after the change) is the result of \<open>putCards\<close>
  with the destination zone, when that is the deck or the hand; the list of the player on
  the source side is, when the source zone is the deck or the hand and the destination
  block does not touch the same list, the result of \<open>putCards\<close> with the state \<open>OTHERS\<close>
  on the list before the change.
\<close>

lemma zone_change_cards:
  assumes raw: "cardData cd (zc_cardId g) = Some raw"
    and pl: "getPlayerById gs (parseInt (zc_playerId g) None) = Some pl"
    and op: "getOpponentPlayer gs pl = Some op"
  shows "length (players (snd (zone_change cd qm sc t1 t2 g gs))) = length (players gs)"
    and "\<And>j. getPlayerByTeam (snd (zone_change cd qm sc t1 t2 g gs)) (zc_toTeam g) = Some j \<Longrightarrow>
           zc_toZone g = Some Zone_Deck \<or> zc_toZone g = Some Zone_Hand \<Longrightarrow>
           \<exists>cs1. p_cards (players (snd (zone_change cd qm sc t1 t2 g gs)) ! j) =
             putCards cs1
               \<lparr>put_entityId = parseInt (zc_entityId g) None,
                put_cardId = dbfId raw,
                put_cardName = Some (zc_entityName g),
                put_isSpawnedCard = Some (\<not> mulliganActive gs),
                put_state = Some (if zc_toZone g = Some Zone_Deck then DECK else HAND)\<rparr>"
    and "\<And>k. getPlayerByTeam (snd (zone_change cd qm sc t1 t2 g gs)) (zc_fromTeam g) = Some k \<Longrightarrow>
           zc_fromZone g = Some Zone_Deck \<or> zc_fromZone g = Some Zone_Hand \<Longrightarrow>
           \<not> (getPlayerByTeam (snd (zone_change cd qm sc t1 t2 g gs)) (zc_toTeam g) = Some k \<and>
               (zc_toZone g = Some Zone_Deck \<or> zc_toZone g = Some Zone_Hand)) \<Longrightarrow>
           p_cards (players (snd (zone_change cd qm sc t1 t2 g gs)) ! k) =
             putCards (p_cards (players gs ! k))
               \<lparr>put_entityId = parseInt (zc_entityId g) None,
                put_cardId = dbfId raw,
                put_cardName = Some (zc_entityName g), put_isSpawnedCard = None,
                put_state = Some OTHERS\<rparr>"
proof -
  define E where "E = parseInt (zc_entityId g) None"
  define gs1 where "gs1 = (if mulliganActive gs \<and>
        (zc_toZone g = Some Zone_Hand \<or> zc_toZone g = Some Zone_Deck)
      then assign_positions (zc_toTeam g) pl op gs else gs)"
  define lv where "lv = leave_zone qm sc (zc_cardId g) (zc_entityName g) E (dbfId raw) (zc_fromZone g)"
  define gs2 where "gs2 = (case getPlayerByTeam gs1 (zc_fromTeam g) of
        Some fromPlayer \<Rightarrow> update_player fromPlayer lv gs1
      | None \<Rightarrow> gs1)"
  define en where "en = enter_zone qm sc t1 t2 (zc_cardId g) (zc_entityName g) E (dbfId raw)
               (mulliganActive gs2) (zc_toZone g)"
  define gs3 where "gs3 = (case getPlayerByTeam gs2 (zc_toTeam g) of
        Some toPlayer \<Rightarrow> update_player toPlayer en gs2
      | None \<Rightarrow> gs2)"
  have r: "snd (zone_change cd qm sc t1 t2 g gs) = gs3"
    unfolding zone_change_def Let_def gs3_def en_def gs2_def lv_def gs1_def E_def
    by (simp add: raw pl op)
  have c1: "map p_cards (players gs1) = map p_cards (players gs)"
    unfolding gs1_def by (simp add: map_p_cards_assign_positions)
  then have l1: "length (players gs1) = length (players gs)"
    using length_map by metis
  have m1: "mulliganActive gs1 = mulliganActive gs"
    unfolding gs1_def by (simp add: assign_positions_def update_player_def Let_def)
  have m2: "mulliganActive gs2 = mulliganActive gs"
    unfolding gs2_def using m1 by (simp add: update_player_def split: option.splits)
  have pos2: "map p_position (players gs2) = map p_position (players gs1)"
    unfolding gs2_def lv_def
    by (simp add: map_update_player p_position_leave_zone split: option.splits
        del: players_update_player)
  have pos3: "map p_position (players gs3) = map p_position (players gs2)"
    unfolding gs3_def en_def
    by (simp add: map_update_player p_position_enter_zone split: option.splits
        del: players_update_player)
  have t2: "getPlayerByTeam gs2 team = getPlayerByTeam gs3 team" for team
    using getPlayerByTeam_positions [OF pos3] by simp
  have t1: "getPlayerByTeam gs1 team = getPlayerByTeam gs3 team" for team
    using getPlayerByTeam_positions [OF pos2] t2 by simp
  have l2: "length (players gs2) = length (players gs)"
    unfolding gs2_def using l1 by (simp split: option.splits)
  have l3: "length (players gs3) = length (players gs)"
    unfolding gs3_def using l2 by (simp split: option.splits)
  have a1: "p_cards (players gs1 ! i) = p_cards (players gs ! i)" if "i < length (players gs)" for i
    using c1 l1 that by (metis nth_map)
  have a2: "p_cards (players gs2 ! i) =
        (if getPlayerByTeam gs3 (zc_fromTeam g) = Some i then p_cards (lv (players gs1 ! i))
         else p_cards (players gs1 ! i))" if "i < length (players gs)" for i
    unfolding gs2_def t1 [symmetric] using that l1
    by (auto split: option.splits)
  have a3: "p_cards (players gs3 ! i) =
        (if getPlayerByTeam gs3 (zc_toTeam g) = Some i then p_cards (en (players gs2 ! i))
         else p_cards (players gs2 ! i))" if "i < length (players gs)" for i
    using that l2 unfolding t2 [symmetric]
    by (subst gs3_def) (auto split: option.splits)
  show "length (players (snd (zone_change cd qm sc t1 t2 g gs))) = length (players gs)"
    unfolding r by (rule l3)
  show "\<exists>cs1. p_cards (players (snd (zone_change cd qm sc t1 t2 g gs)) ! j) =
             putCards cs1
               \<lparr>put_entityId = parseInt (zc_entityId g) None,
                put_cardId = dbfId raw,
                put_cardName = Some (zc_entityName g),
                put_isSpawnedCard = Some (\<not> mulliganActive gs),
                put_state = Some (if zc_toZone g = Some Zone_Deck then DECK else HAND)\<rparr>"
    if j: "getPlayerByTeam (snd (zone_change cd qm sc t1 t2 g gs)) (zc_toTeam g) = Some j"
      and z: "zc_toZone g = Some Zone_Deck \<or> zc_toZone g = Some Zone_Hand" for j
  proof -
    from getPlayerByTeam_less [OF j] have jl: "j < length (players gs)"
      unfolding r l3 .
    from j have j3: "getPlayerByTeam gs3 (zc_toTeam g) = Some j" unfolding r .
    have "p_cards (players gs3 ! j) = putCards (p_cards (players gs2 ! j))
               \<lparr>put_entityId = E, put_cardId = dbfId raw,
                put_cardName = Some (zc_entityName g),
                put_isSpawnedCard = Some (\<not> mulliganActive gs),
                put_state = Some (if zc_toZone g = Some Zone_Deck then DECK else HAND)\<rparr>"
      unfolding a3 [OF jl] en_def p_cards_enter_zone m2 using j3 z by simp
    then show ?thesis unfolding r E_def by (intro exI) assumption
  qed
  show "p_cards (players (snd (zone_change cd qm sc t1 t2 g gs)) ! k) =
             putCards (p_cards (players gs ! k))
               \<lparr>put_entityId = parseInt (zc_entityId g) None,
                put_cardId = dbfId raw,
                put_cardName = Some (zc_entityName g), put_isSpawnedCard = None,
                put_state = Some OTHERS\<rparr>"
    if k: "getPlayerByTeam (snd (zone_change cd qm sc t1 t2 g gs)) (zc_fromTeam g) = Some k"
      and z: "zc_fromZone g = Some Zone_Deck \<or> zc_fromZone g = Some Zone_Hand"
      and n: "\<not> (getPlayerByTeam (snd (zone_change cd qm sc t1 t2 g gs)) (zc_toTeam g) = Some k \<and>
               (zc_toZone g = Some Zone_Deck \<or> zc_toZone g = Some Zone_Hand))" for k
  proof -
    from getPlayerByTeam_less [OF k] have kl: "k < length (players gs)"
      unfolding r l3 .
    from k have k3: "getPlayerByTeam gs3 (zc_fromTeam g) = Some k" unfolding r .
    from n have n3: "\<not> (getPlayerByTeam gs3 (zc_toTeam g) = Some k \<and>
               (zc_toZone g = Some Zone_Deck \<or> zc_toZone g = Some Zone_Hand))" unfolding r .
    have "p_cards (players gs3 ! k) = p_cards (players gs2 ! k)"
      unfolding a3 [OF kl] en_def p_cards_enter_zone using n3 by auto
    also have "\<dots> = putCards (p_cards (players gs ! k))
               \<lparr>put_entityId = E, put_cardId = dbfId raw,
                put_cardName = Some (zc_entityName g), put_isSpawnedCard = None,
                put_state = Some OTHERS\<rparr>"
      unfolding a2 [OF kl] lv_def p_cards_leave_zone a1 [OF kl] using k3 z by simp
    finally show ?thesis unfolding r E_def .
  qed
qed

text \<open>
  Claim C1, as amended. Take a game state in which every player's cards collection holds
  each entity id at most once, a run of zone-change facts whose entity ids are numbers, and
  one more such fact for the entity \<open>e\<close>. After the run and the fact, every collection
  still holds each entity id at most once and has lost no entity: a zone change removes no
  card from any collection. When the handler applies the last fact (the read of the card
  finds one, and the player of the fact and an opponent are registered), the player on the
  destination side holds, for a destination zone \<open>DECK\<close> or \<open>HAND\<close>, a card of \<open>e\<close> in
  that state; and the player on the source side, for a source zone \<open>DECK\<close> or \<open>HAND\<close>,
  has the state \<open>OTHERS\<close> on its card of \<open>e\<close>, unless the destination block updated the
  same collection. So after a change between two sides the entity can be in both
  collections.
\<close>

theorem zone_changes_cards:
  assumes d: "\<forall>i<length (players gs). distinct (map c_entityId (p_cards (players gs ! i)))"
    and ids: "\<forall>f\<in>set fs. parseInt (zc_entityId (snd (snd f))) None \<noteq> NaN"
    and e: "parseInt (zc_entityId g) None = Num e"
  shows "length (players (snd (zone_change cd qm sc t1 t2 g (zone_changes cd qm sc fs gs)))) =
           length (players gs) \<and>
     (\<forall>i<length (players gs).
        distinct (map c_entityId (p_cards
          (players (snd (zone_change cd qm sc t1 t2 g (zone_changes cd qm sc fs gs))) ! i))) \<and>
        set (map c_entityId (p_cards (players gs ! i))) \<subseteq>
        set (map c_entityId (p_cards
          (players (snd (zone_change cd qm sc t1 t2 g (zone_changes cd qm sc fs gs))) ! i)))) \<and>
     ((\<exists>raw pl op. cardData cd (zc_cardId g) = Some raw \<and>
         getPlayerById (zone_changes cd qm sc fs gs) (parseInt (zc_playerId g) None) = Some pl \<and>
         getOpponentPlayer (zone_changes cd qm sc fs gs) pl = Some op) \<longrightarrow>
        (\<forall>j. getPlayerByTeam (snd (zone_change cd qm sc t1 t2 g (zone_changes cd qm sc fs gs)))
                (zc_toTeam g) = Some j \<and>
             (zc_toZone g = Some Zone_Deck \<or> zc_toZone g = Some Zone_Hand) \<longrightarrow>
             (\<exists>c\<in>set (p_cards
                  (players (snd (zone_change cd qm sc t1 t2 g (zone_changes cd qm sc fs gs))) ! j)).
                c_entityId c = Num e \<and>
                c_state c = (if zc_toZone g = Some Zone_Deck then DECK else HAND))) \<and>
        (\<forall>k. getPlayerByTeam (snd (zone_change cd qm sc t1 t2 g (zone_changes cd qm sc fs gs)))
                (zc_fromTeam g) = Some k \<and>
             (zc_fromZone g = Some Zone_Deck \<or> zc_fromZone g = Some Zone_Hand) \<and>
             \<not> (getPlayerByTeam (snd (zone_change cd qm sc t1 t2 g (zone_changes cd qm sc fs gs)))
                   (zc_toTeam g) = Some k \<and>
                 (zc_toZone g = Some Zone_Deck \<or> zc_toZone g = Some Zone_Hand)) \<longrightarrow>
             (\<forall>c\<in>set (p_cards
                  (players (snd (zone_change cd qm sc t1 t2 g (zone_changes cd qm sc fs gs))) ! k)).
                c_entityId c = Num e \<longrightarrow> c_state c = OTHERS)))"
proof -
  define gs1 where "gs1 = zone_changes cd qm sc fs gs"
  define gs2 where "gs2 = snd (zone_change cd qm sc t1 t2 g gs1)"
  define Q where "Q = (\<lambda>i (cs :: Card list). distinct (map c_entityId cs) \<and>
     set (map c_entityId (p_cards (players gs ! i))) \<subseteq> set (map c_entityId cs))"
  have cl: "Q i (putCards cs a)" if "Q i cs" "put_entityId a \<noteq> NaN" for i cs and a :: PutArgs
    using that putCards_distinct [of cs a] putCards_ids_subset [of cs a]
    unfolding Q_def by blast
  have inv0: "length (players gs) = length (players gs) \<and>
      (\<forall>i<length (players gs). Q i (p_cards (players gs ! i)))"
    using d by (simp add: Q_def)
  have inv1: "length (players gs1) = length (players gs) \<and>
      (\<forall>i<length (players gs). Q i (p_cards (players gs1 ! i)))"
    unfolding gs1_def
    by (rule zone_changes_keeps [where Q = Q, OF cl ids inv0])
  have inv2: "length (players gs2) = length (players gs) \<and>
      (\<forall>i<length (players gs). Q i (p_cards (players gs2 ! i)))"
    unfolding gs2_def
  proof (rule zone_change_keeps [where Q = Q])
    fix i cs and a :: PutArgs
    assume "Q i cs" and "put_entityId a = parseInt (zc_entityId g) None"
    with e show "Q i (putCards cs a)" by (simp add: cl)
  next
    from inv1 show "length (players gs1) = length (players gs) \<and>
      (\<forall>i<length (players gs). Q i (p_cards (players gs1 ! i)))" .
  qed
  have dest: "\<exists>c\<in>set (p_cards (players gs2 ! j)).
                c_entityId c = Num e \<and>
                c_state c = (if zc_toZone g = Some Zone_Deck then DECK else HAND)"
    if raw: "cardData cd (zc_cardId g) = Some raw"
      and pl: "getPlayerById gs1 (parseInt (zc_playerId g) None) = Some pl"
      and op: "getOpponentPlayer gs1 pl = Some op"
      and j: "getPlayerByTeam gs2 (zc_toTeam g) = Some j"
      and z: "zc_toZone g = Some Zone_Deck \<or> zc_toZone g = Some Zone_Hand" for j raw pl op
  proof -
    from zone_change_cards(2) [OF raw pl op j [unfolded gs2_def] z]
    obtain cs1 where
      "p_cards (players gs2 ! j) = putCards cs1
         \<lparr>put_entityId = Num e, put_cardId = dbfId raw,
          put_cardName = Some (zc_entityName g),
          put_isSpawnedCard = Some (\<not> mulliganActive gs1),
          put_state = Some (if zc_toZone g = Some Zone_Deck then DECK else HAND)\<rparr>"
      unfolding gs2_def [symmetric] e by blast
    then show ?thesis
      using putCards_present [of _ "if zc_toZone g = Some Zone_Deck then DECK else HAND" _ e cs1]
      by simp
  qed
  have src: "c_state c = OTHERS"
    if raw: "cardData cd (zc_cardId g) = Some raw"
      and pl: "getPlayerById gs1 (parseInt (zc_playerId g) None) = Some pl"
      and op: "getOpponentPlayer gs1 pl = Some op"
      and k: "getPlayerByTeam gs2 (zc_fromTeam g) = Some k"
      and z: "zc_fromZone g = Some Zone_Deck \<or> zc_fromZone g = Some Zone_Hand"
      and n: "\<not> (getPlayerByTeam gs2 (zc_toTeam g) = Some k \<and>
                 (zc_toZone g = Some Zone_Deck \<or> zc_toZone g = Some Zone_Hand))"
      and c: "c \<in> set (p_cards (players gs2 ! k))" "c_entityId c = Num e" for k c raw pl op
  proof -
    from k have "k < length (players gs2)" by (rule getPlayerByTeam_less)
    with inv2 inv1 have kl: "k < length (players gs1)" and kg: "k < length (players gs)" by simp_all
    from inv1 kg have dk: "distinct (map c_entityId (p_cards (players gs1 ! k)))"
      by (simp add: Q_def)
    from zone_change_cards(3) [OF raw pl op k [unfolded gs2_def] z n [unfolded gs2_def]]
    have "p_cards (players gs2 ! k) = putCards (p_cards (players gs1 ! k))
         \<lparr>put_entityId = Num e, put_cardId = dbfId raw,
          put_cardName = Some (zc_entityName g), put_isSpawnedCard = None,
          put_state = Some OTHERS\<rparr>"
      unfolding gs2_def [symmetric] e .
    with c have "c \<in> set (putCards (p_cards (players gs1 ! k))
         \<lparr>put_entityId = Num e, put_cardId = dbfId raw,
          put_cardName = Some (zc_entityName g), put_isSpawnedCard = None,
          put_state = Some OTHERS\<rparr>)"
      by simp
    from putCards_state [OF _ _ dk this c(2)] show ?thesis by simp
  qed
  show ?thesis
    unfolding gs1_def [symmetric] gs2_def [symmetric]
    apply (intro conjI allI impI ballI)
    subgoal using inv2 by simp
    subgoal for i using inv2 by (simp add: Q_def)
    subgoal for i using inv2 by (simp add: Q_def)
    subgoal for j using dest by blast
    subgoal for k c using src by blast
    done
qed



text \<open>
  Claim C1 as stated fails: entity 7 is in Alice's hand; after the zone change from the
  friendly hand to the opposing hand it is in Alice's collection (state \<open>OTHERS\<close>) and in
  Bob's (state \<open>HAND\<close>).
\<close>

theorem zone_change_keeps_source_card:
  "map (\<lambda>p. map (\<lambda>c. (c_entityId c, c_state c)) (p_cards p))
     (players (zone_changes example_cardData Map.empty Map.empty [(0, 0, fact_draw)] mulligan_game))
     = [[(Num 7, HAND)], []] \<and>
   map (\<lambda>p. map (\<lambda>c. (c_entityId c, c_state c)) (p_cards p))
     (players (zone_changes example_cardData Map.empty Map.empty
        [(0, 0, fact_draw), (0, 0, fact_steal)] mulligan_game))
     = [[(Num 7, OTHERS)], [(Num 7, HAND)]]"
  by code_simp

text \<open>
  The same two facts as an instance of the theorem: both collections keep distinct ids,
  Bob holds entity 7 in the hand, and Alice still holds it, in the state \<open>OTHERS\<close>.
\<close>

theorem zone_changes_cards_witness:
  "distinct (map c_entityId (p_cards (players
      (snd (zone_change example_cardData Map.empty Map.empty 0 0 fact_steal
         (zone_changes example_cardData Map.empty Map.empty [(0, 0, fact_draw)] mulligan_game))) ! 0))) \<and>
   distinct (map c_entityId (p_cards (players
      (snd (zone_change example_cardData Map.empty Map.empty 0 0 fact_steal
         (zone_changes example_cardData Map.empty Map.empty [(0, 0, fact_draw)] mulligan_game))) ! 1))) \<and>
   (\<exists>c\<in>set (p_cards (players
      (snd (zone_change example_cardData Map.empty Map.empty 0 0 fact_steal
         (zone_changes example_cardData Map.empty Map.empty [(0, 0, fact_draw)] mulligan_game))) ! 1)).
      c_entityId c = Num 7 \<and> c_state c = HAND) \<and>
   (\<exists>c\<in>set (p_cards (players
      (snd (zone_change example_cardData Map.empty Map.empty 0 0 fact_steal
         (zone_changes example_cardData Map.empty Map.empty [(0, 0, fact_draw)] mulligan_game))) ! 0)).
      c_entityId c = Num 7 \<and> c_state c = OTHERS)"
proof -
  define gs2 where "gs2 = snd (zone_change example_cardData Map.empty Map.empty 0 0 fact_steal
         (zone_changes example_cardData Map.empty Map.empty [(0, 0, fact_draw)] mulligan_game))"
  have l: "length (players mulligan_game) = 2" by code_simp
  have c0: "p_cards (players mulligan_game ! 0) = []" by code_simp
  have c1: "p_cards (players mulligan_game ! 1) = []" by code_simp
  have d: "\<forall>i<length (players mulligan_game).
      distinct (map c_entityId (p_cards (players mulligan_game ! i)))"
    using c0 c1 by (auto simp: l less_2_cases_iff)
  have e: "parseInt (zc_entityId fact_steal) None = Num 7" by code_simp
  have "parseInt (zc_entityId fact_draw) None \<noteq> NaN" by code_simp
  then have ids: "\<forall>f\<in>set [(0::int, 0::int, fact_draw)]. parseInt (zc_entityId (snd (snd f))) None \<noteq> NaN"
    by simp
  have ok: "cardData example_cardData (zc_cardId fact_steal) =
        Some (OwnCard \<lparr>ct_dbfId = 315, ct_id = ''CS2_029'', ct_name = ''Fireball''\<rparr>) \<and>
      getPlayerById (zone_changes example_cardData Map.empty Map.empty [(0, 0, fact_draw)] mulligan_game)
        (parseInt (zc_playerId fact_steal) None) = Some 1 \<and>
      getOpponentPlayer (zone_changes example_cardData Map.empty Map.empty [(0, 0, fact_draw)] mulligan_game) 1
        = Some 0"
    by code_simp
  then have ok: "\<exists>raw pl op. cardData example_cardData (zc_cardId fact_steal) = Some raw \<and>
      getPlayerById (zone_changes example_cardData Map.empty Map.empty [(0, 0, fact_draw)] mulligan_game)
        (parseInt (zc_playerId fact_steal) None) = Some pl \<and>
      getOpponentPlayer (zone_changes example_cardData Map.empty Map.empty [(0, 0, fact_draw)] mulligan_game) pl
        = Some op"
    by blast
  have t: "getPlayerByTeam gs2 (zc_toTeam fact_steal) = Some 1"
    unfolding gs2_def by code_simp
  have f: "getPlayerByTeam gs2 (zc_fromTeam fact_steal) = Some 0"
    unfolding gs2_def by code_simp
  have z: "zc_toZone fact_steal = Some Zone_Hand" "zc_fromZone fact_steal = Some Zone_Hand"
    by code_simp+
  have before: "map c_entityId (p_cards (players
      (zone_changes example_cardData Map.empty Map.empty [(0, 0, fact_draw)] mulligan_game) ! 0)) = [Num 7]"
    by code_simp
  note T = zone_changes_cards [OF d ids e, where cd = example_cardData and qm = Map.empty
      and sc = Map.empty and ?t1.0 = 0 and ?t2.0 = 0, folded gs2_def]
  from T l have d0: "distinct (map c_entityId (p_cards (players gs2 ! 0)))"
    and d1: "distinct (map c_entityId (p_cards (players gs2 ! 1)))"
    by simp_all
  from T ok t z have dest: "\<exists>c\<in>set (p_cards (players gs2 ! 1)). c_entityId c = Num 7 \<and> c_state c = HAND"
    by (simp add: Zone_Hand_def Zone_Deck_def)
  from T ok f t z have src: "\<forall>c\<in>set (p_cards (players gs2 ! 0)). c_entityId c = Num 7 \<longrightarrow> c_state c = OTHERS"
    by simp
  have "Num 7 \<in> set (map c_entityId (p_cards (players gs2 ! 0)))"
    by (simp add: gs2_def) code_simp
  with src have "\<exists>c\<in>set (p_cards (players gs2 ! 0)). c_entityId c = Num 7 \<and> c_state c = OTHERS"
    by auto
  with d0 d1 dest show ?thesis unfolding gs2_def by blast
qed


end
